theory Spec2Isabelle
  imports Complex_Main "HOL-Library.Log_Nat"
begin

section \<open>JavaScript strings\<close>

text \<open>
  A JavaScript string is the list of its UTF-16 code units, each a natural number.
  \<open>js\<close> gives the string of an ASCII literal.
\<close>

type_synonym jsstring = "nat list"

definition js :: "string \<Rightarrow> jsstring" where
  "js s = map of_char s"

text \<open>
  The white space of \<open>trim\<close> and of the regular expression class \<open>\s\<close>: ECMAScript's
  WhiteSpace and LineTerminator code points, all of them single code units.
\<close>

definition is_space :: "nat \<Rightarrow> bool" where
  "is_space c =
     (c \<in> {9, 10, 11, 12, 13, 32, 160, 5760, 8232, 8233, 8239, 8287, 12288, 65279} \<or>
      (8192 \<le> c \<and> c \<le> 8202))"

text \<open>The regular expression class \<open>\d\<close>: the digits 0 to 9.\<close>

definition is_digit :: "nat \<Rightarrow> bool" where
  "is_digit c = (48 \<le> c \<and> c \<le> 57)"

text \<open>
  \<open>String.prototype.toUpperCase\<close> and \<open>String.prototype.toLowerCase\<close> are the
  engine's: the Unicode default case conversions, which may change the length of a
  string. The model takes them as a parameter and assumes nothing about them.
\<close>

record engine =
  toUpperCase :: "jsstring \<Rightarrow> jsstring"
  toLowerCase :: "jsstring \<Rightarrow> jsstring"

text \<open>\<open>s.trim()\<close>: white space removed from both ends.\<close>

definition trim :: "jsstring \<Rightarrow> jsstring" where
  "trim s = rev (dropWhile is_space (rev (dropWhile is_space s)))"

text \<open>
  \<open>s.split(" ")\<close>: the pieces between single space characters (U+0020, code unit 32).
  The result is never empty: the empty string gives one empty piece, two spaces in a
  row give an empty piece between them. No other character separates.
\<close>

fun split_space :: "jsstring \<Rightarrow> jsstring list" where
  "split_space [] = [[]]"
| "split_space (c # cs) =
     (if c = 32 then [] # split_space cs
      else (case split_space cs of
              [] \<Rightarrow> [[c]]
            | w # ws \<Rightarrow> (c # w) # ws))"

text \<open>\<open>xs.join(" ")\<close>.\<close>

fun join_space :: "jsstring list \<Rightarrow> jsstring" where
  "join_space [] = []"
| "join_space [w] = w"
| "join_space (w # v # ws) = w @ 32 # join_space (v # ws)"

text \<open>
  \<open>const argArray = args.split(" "); const str = argArray.shift()\<close>, then
  \<open>str || ""\<close> and \<open>argArray.join(" ")\<close>: the first piece and the other pieces joined
  again. \<open>shift\<close> of an empty array gives \<open>undefined\<close>, which \<open>|| ""\<close> turns into the
  empty string.
\<close>

definition shift_token :: "jsstring \<Rightarrow> jsstring \<times> jsstring" where
  "shift_token args =
     (case split_space args of
        [] \<Rightarrow> ([], [])
      | str # argArray \<Rightarrow> (str, join_space argArray))"

text \<open>
  The two halves of an input as the validators see them: the text before the first
  space character, and the text after that space.
\<close>

definition first_token :: "jsstring \<Rightarrow> jsstring" where
  "first_token args = takeWhile (\<lambda>c. c \<noteq> 32) args"

definition after_token :: "jsstring \<Rightarrow> jsstring" where
  "after_token args = drop 1 (dropWhile (\<lambda>c. c \<noteq> 32) args)"

text \<open>The text before the first white space character of any kind.\<close>

definition first_word :: "jsstring \<Rightarrow> jsstring" where
  "first_word args = takeWhile (\<lambda>c. \<not> is_space c) args"

subsection \<open>Regular expressions\<close>

text \<open>
  A \<open>RegExp\<close> object. \<open>re_id\<close> is the object's identity. \<open>re_match i s\<close> is what its
  pattern does on \<open>s\<close> when the match starts its search at index \<open>i\<close>: the index at
  which the match found ends, or \<open>None\<close>. \<open>re_keeps_index\<close> tells whether it has the
  \<open>g\<close> or the \<open>y\<close> flag; such an object reads and writes its \<open>lastIndex\<close>, which
  lives in a store of the \<open>lastIndex\<close> of every \<open>RegExp\<close> object, because the
  object may be shared and is used again at the next message.
\<close>

record regex =
  re_id :: nat
  re_keeps_index :: bool
  re_match :: "nat \<Rightarrow> jsstring \<Rightarrow> nat option"

type_synonym indexes = "nat \<Rightarrow> nat"

text \<open>
  \<open>regex.test(s)\<close>. Without the two flags the search starts at 0 and \<open>lastIndex\<close> is
  left alone. With one of them it starts at \<open>lastIndex\<close>, fails when that lies beyond the
  end of \<open>s\<close>, and sets \<open>lastIndex\<close> to the end of the match, or to 0 on failure.
\<close>

definition test :: "regex \<Rightarrow> jsstring \<Rightarrow> indexes \<Rightarrow> bool \<times> indexes" where
  "test re s h =
     (if re_keeps_index re then
        (if length s < h (re_id re) then (False, h(re_id re := 0))
         else (case re_match re (h (re_id re)) s of
                 None \<Rightarrow> (False, h(re_id re := 0))
               | Some e \<Rightarrow> (True, h(re_id re := e))))
      else (re_match re 0 s \<noteq> None, h))"

section \<open>JavaScript numbers\<close>

text \<open>
  A Number is an IEEE 754 binary64 value: a finite rational on the binary64 grid, an
  infinity or NaN. The two zeros are one value here; the code below never tells them
  apart (it compares with \<open><\<close>, \<open>>\<close>, \<open><=\<close>, \<open>>=\<close> and \<open>!==\<close> only).
\<close>

datatype jsnum = Fin rat | PInf | NInf | NaN

fun num_less :: "jsnum \<Rightarrow> jsnum \<Rightarrow> bool" where
  "num_less (Fin a) (Fin b) = (a < b)"
| "num_less (Fin a) PInf = True"
| "num_less NInf (Fin b) = True"
| "num_less NInf PInf = True"
| "num_less _ _ = False"

fun num_eq :: "jsnum \<Rightarrow> jsnum \<Rightarrow> bool" where
  "num_eq (Fin a) (Fin b) = (a = b)"
| "num_eq PInf PInf = True"
| "num_eq NInf NInf = True"
| "num_eq _ _ = False"

definition num_le :: "jsnum \<Rightarrow> jsnum \<Rightarrow> bool" where
  "num_le a b = (num_less a b \<or> num_eq a b)"

text \<open>\<open>num % 1 !== 0\<close>: the remainder of an infinity or of NaN is NaN, which differs from 0.\<close>

fun has_fraction :: "jsnum \<Rightarrow> bool" where
  "has_fraction (Fin a) = (a \<noteq> of_int \<lfloor>a\<rfloor>)"
| "has_fraction _ = True"

fun isNaN :: "jsnum \<Rightarrow> bool" where
  "isNaN NaN = True"
| "isNaN _ = False"

text \<open>Rounding a rational to the nearest integer, a tie to the even one.\<close>

definition round_ties_even :: "rat \<Rightarrow> int" where
  "round_ties_even q =
     (let f = \<lfloor>q\<rfloor>; r = q - of_int f
      in if r < 1 / 2 then f
         else if 1 / 2 < r then f + 1
         else if even f then f else f + 1)"

text \<open>The binary exponent of a positive rational: \<open>2 ^ e \<le> q < 2 ^ (e + 1)\<close>.\<close>

definition ilog2 :: "rat \<Rightarrow> int" where
  "ilog2 q =
     (if 1 \<le> q then int (floorlog 2 (nat \<lfloor>q\<rfloor>)) - 1
      else - int (floorlog 2 (nat (\<lceil>1 / q\<rceil> - 1))))"

text \<open>A power of two with an integer exponent.\<close>

definition pow2 :: "int \<Rightarrow> rat" where
  "pow2 e = (if 0 \<le> e then 2 ^ nat e else 1 / 2 ^ nat (- e))"

text \<open>
  The Number value of a rational (ECMAScript: round to nearest, ties to even, 53
  significant bits, exponents from -1074). The largest finite Number is
  \<open>2 ^ 1024 - 2 ^ 971\<close>; a magnitude from \<open>2 ^ 1024 - 2 ^ 970\<close> on, half a step above
  it, rounds to an infinity.
\<close>

definition to_double :: "rat \<Rightarrow> jsnum" where
  "to_double q =
     (if q = 0 then Fin 0
      else if 2 ^ 1024 - 2 ^ 970 \<le> \<bar>q\<bar> then (if 0 < q then PInf else NInf)
      else
        let a = \<bar>q\<bar>;
            e = max (ilog2 a - 52) (- 1074);
            v = of_int (round_ties_even (a / pow2 e)) * pow2 e
        in Fin (if 0 < q then v else - v))"

text \<open>The regular expression \<open>/^-?\d+(\.\d+)?$/\<close> (45 is the minus sign, 46 the dot).\<close>

definition strip_minus :: "jsstring \<Rightarrow> jsstring" where
  "strip_minus s = (case s of [] \<Rightarrow> [] | c # cs \<Rightarrow> if c = 45 then cs else s)"

definition number_format :: "jsstring \<Rightarrow> bool" where
  "number_format s =
     (let u = strip_minus s;
          ip = takeWhile is_digit u;
          r = dropWhile is_digit u
      in ip \<noteq> [] \<and>
         (case r of
            [] \<Rightarrow> True
          | c # fp \<Rightarrow> c = 46 \<and> fp \<noteq> [] \<and> list_all is_digit fp))"

fun digits_value :: "nat \<Rightarrow> jsstring \<Rightarrow> nat" where
  "digits_value acc [] = acc"
| "digits_value acc (c # cs) = digits_value (acc * 10 + (c - 48)) cs"

definition decimal_value :: "jsstring \<Rightarrow> rat" where
  "decimal_value s =
     (let u = strip_minus s;
          ip = takeWhile is_digit u;
          fp = drop 1 (dropWhile is_digit u);
          m = of_nat (digits_value 0 ip) + of_nat (digits_value 0 fp) / 10 ^ length fp
      in if u = s then m else - m)"

text \<open>
  \<open>parseFloat(arg)\<close>. On a string of the format above it is the Number value of the
  decimal. On any other string the validator below reads it only in the second
  disjunct of a test whose first disjunct is already true, so NaN stands for
  whatever prefix \<open>parseFloat\<close> would have parsed.
\<close>

definition parseFloat :: "jsstring \<Rightarrow> jsnum" where
  "parseFloat s = (if number_format s then to_double (decimal_value s) else NaN)"

section \<open>Arguments\<close>

text \<open>
  An argument's value: a string (\<open>StringArgument\<close>, \<open>RestArgument\<close>), a number
  (\<open>NumberArgument\<close>) or \<open>undefined\<close> (the default of an argument whose \<open>optional\<close>
  was never called, or was called with \<open>undefined\<close>).
\<close>

datatype val = VStr jsstring | VNum jsnum | VUndefined

text \<open>
  The fields of \<open>StringArgument\<close>; \<open>null\<close> is \<open>None\<close>. The length bounds are the
  numbers the builder was given, taken as integers.
\<close>

record string_fields =
  s_regex :: "regex option"
  s_maxlen :: "int option"
  s_minlen :: "int option"
  s_whitelist :: "jsstring list option"
  s_uppercase :: bool
  s_lowercase :: bool

record number_fields =
  n_min :: "jsnum option"
  n_max :: "jsnum option"
  n_int :: bool
  n_forcePositive :: bool
  n_forceNegative :: bool

text \<open>
  The three classes \<open>createArgumentType\<close> builds. The base class \<open>Argument\<close> is not
  exported and never instantiated on its own.
\<close>

datatype arg_kind =
    StringArgument string_fields
  | RestArgument string_fields
  | NumberArgument number_fields

record argument =
  a_optional :: bool
  a_name :: jsstring
  a_display :: jsstring
  a_displayDefault :: bool
  a_default :: val
  a_kind :: arg_kind

text \<open>
  The check a \<open>ParseError\<close> comes from. Each has one message template in the source;
  the tag stands for the message.
\<close>

datatype check =
    TooShort | TooLong | NotAllowed | NoMatch
  | NotANumber | TooSmall | TooBig | NotInteger | NotPositive | NotNegative

text \<open>\<open>class ParseError\<close>: the message and the argument that raised it.\<close>

datatype parse_error = ParseErr check argument

datatype error =
    ParseError parse_error
  | TooManyArgumentsError "parse_error option"
  | PermissionError
  | Error jsstring

subsection \<open>Builders\<close>

definition new_StringArgument :: string_fields where
  "new_StringArgument =
     \<lparr>s_regex = None, s_maxlen = None, s_minlen = None, s_whitelist = None,
      s_uppercase = False, s_lowercase = False\<rparr>"

definition new_NumberArgument :: number_fields where
  "new_NumberArgument =
     \<lparr>n_min = None, n_max = None, n_int = False,
      n_forcePositive = False, n_forceNegative = False\<rparr>"

definition new_Argument :: "arg_kind \<Rightarrow> argument" where
  "new_Argument k =
     \<lparr>a_optional = False, a_name = js ''_'', a_display = js ''_'', a_displayDefault = True,
      a_default = VUndefined, a_kind = k\<rparr>"

definition optional :: "val \<Rightarrow> bool \<Rightarrow> argument \<Rightarrow> argument" where
  "optional fallback displayDefault a =
     a\<lparr>a_displayDefault := displayDefault, a_default := fallback, a_optional := True\<rparr>"

text \<open>The builders of \<open>StringArgument\<close>: \<open>match\<close>, \<open>max\<close>, \<open>min\<close>, \<open>forceUpperCase\<close>,
  \<open>forceLowerCase\<close> and \<open>whitelist\<close>.\<close>

definition match_regex :: "regex \<Rightarrow> string_fields \<Rightarrow> string_fields" where
  "match_regex regex f = f\<lparr>s_regex := Some regex\<rparr>"

definition max_length :: "int \<Rightarrow> string_fields \<Rightarrow> string_fields" where
  "max_length len f = f\<lparr>s_maxlen := Some len\<rparr>"

definition min_length :: "int \<Rightarrow> string_fields \<Rightarrow> string_fields" where
  "min_length len f = f\<lparr>s_minlen := Some len\<rparr>"

definition forceUpperCase :: "string_fields \<Rightarrow> string_fields" where
  "forceUpperCase f = f\<lparr>s_lowercase := False, s_uppercase := True\<rparr>"

definition forceLowerCase :: "string_fields \<Rightarrow> string_fields" where
  "forceLowerCase f = f\<lparr>s_lowercase := True, s_uppercase := False\<rparr>"

definition whitelist :: "jsstring list \<Rightarrow> string_fields \<Rightarrow> string_fields" where
  "whitelist words f =
     f\<lparr>s_whitelist := Some ((case s_whitelist f of None \<Rightarrow> [] | Some ws \<Rightarrow> ws) @ words)\<rparr>"

text \<open>A chain of builder calls on a new \<open>StringArgument\<close>, first call first.\<close>

datatype string_builder =
    Match regex
  | Max int
  | Min int
  | ForceUpperCase
  | ForceLowerCase
  | Whitelist "jsstring list"

fun call_builder :: "string_builder \<Rightarrow> string_fields \<Rightarrow> string_fields" where
  "call_builder (Match regex) f = match_regex regex f"
| "call_builder (Max len) f = max_length len f"
| "call_builder (Min len) f = min_length len f"
| "call_builder ForceUpperCase f = forceUpperCase f"
| "call_builder ForceLowerCase f = forceLowerCase f"
| "call_builder (Whitelist words) f = whitelist words f"

definition built :: "string_builder list \<Rightarrow> string_fields" where
  "built calls = foldl (\<lambda>f b. call_builder b f) new_StringArgument calls"

text \<open>The case the last case-forcing call of a chain asks for, if there is one.\<close>

fun last_case :: "string_builder list \<Rightarrow> string_builder option" where
  "last_case [] = None"
| "last_case (b # bs) =
     (case last_case bs of
        Some c \<Rightarrow> Some c
      | None \<Rightarrow>
          (case b of
             ForceUpperCase \<Rightarrow> Some ForceUpperCase
           | ForceLowerCase \<Rightarrow> Some ForceLowerCase
           | _ \<Rightarrow> None))"

text \<open>The builders of \<open>NumberArgument\<close>: \<open>min\<close>, \<open>max\<close>, \<open>integer\<close>, \<open>positive\<close>, \<open>negative\<close>.\<close>

definition minimum :: "jsnum \<Rightarrow> number_fields \<Rightarrow> number_fields" where
  "minimum m f = f\<lparr>n_min := Some m\<rparr>"

definition maximum :: "jsnum \<Rightarrow> number_fields \<Rightarrow> number_fields" where
  "maximum m f = f\<lparr>n_max := Some m\<rparr>"

definition integer :: "number_fields \<Rightarrow> number_fields" where
  "integer f = f\<lparr>n_int := True\<rparr>"

definition positive :: "number_fields \<Rightarrow> number_fields" where
  "positive f = f\<lparr>n_forcePositive := True, n_forceNegative := False\<rparr>"

definition negative :: "number_fields \<Rightarrow> number_fields" where
  "negative f = f\<lparr>n_forcePositive := False, n_forceNegative := True\<rparr>"



subsection \<open>Validation\<close>

text \<open>The two case conversions at the head of \<open>_validate\<close>.\<close>

definition fold_case :: "engine \<Rightarrow> string_fields \<Rightarrow> jsstring \<Rightarrow> jsstring" where
  "fold_case en f arg0 =
     (let arg1 = (if s_uppercase f then toUpperCase en arg0 else arg0)
      in if s_lowercase f then toLowerCase en arg1 else arg1)"

text \<open>
  \<open>StringArgument._validate(arg, ...rest)\<close>, called with one \<open>rest\<close> string. The
  regular expression is tested only when the checks before it have passed; the store
  of \<open>lastIndex\<close> values comes back as the test left it.
\<close>

definition StringArgument_validate' ::
  "engine \<Rightarrow> argument \<Rightarrow> string_fields \<Rightarrow> jsstring \<Rightarrow> jsstring \<Rightarrow> indexes \<Rightarrow>
     (error + val \<times> jsstring) \<times> indexes" where
  "StringArgument_validate' en this f arg0 rest h =
     (let arg = fold_case en f arg0
      in if (case s_minlen f of None \<Rightarrow> False | Some m \<Rightarrow> m > int (length arg))
           then (Inl (ParseError (ParseErr TooShort this)), h)
         else if (case s_maxlen f of None \<Rightarrow> False | Some m \<Rightarrow> m < int (length arg))
           then (Inl (ParseError (ParseErr TooLong this)), h)
         else if (case s_whitelist f of None \<Rightarrow> False | Some ws \<Rightarrow> arg \<notin> set ws)
           then (Inl (ParseError (ParseErr NotAllowed this)), h)
         else (case s_regex f of
                 None \<Rightarrow> (Inr (VStr arg, rest), h)
               | Some re \<Rightarrow>
                   (let (ok, h') = test re arg h
                    in if \<not> ok then (Inl (ParseError (ParseErr NoMatch this)), h')
                       else (Inr (VStr arg, rest), h'))))"

definition StringArgument_validate ::
  "engine \<Rightarrow> argument \<Rightarrow> string_fields \<Rightarrow> jsstring \<Rightarrow> indexes \<Rightarrow>
     (error + val \<times> jsstring) \<times> indexes" where
  "StringArgument_validate en this f args h =
     (let (str, rest) = shift_token args in StringArgument_validate' en this f str rest h)"

definition RestArgument_validate ::
  "engine \<Rightarrow> argument \<Rightarrow> string_fields \<Rightarrow> jsstring \<Rightarrow> indexes \<Rightarrow>
     (error + val \<times> jsstring) \<times> indexes" where
  "RestArgument_validate en this f args h = StringArgument_validate' en this f args [] h"

definition NumberArgument_validate ::
  "argument \<Rightarrow> number_fields \<Rightarrow> jsstring \<Rightarrow> error + val \<times> jsstring" where
  "NumberArgument_validate this f args =
     (let (arg, rest) = shift_token args;
          num = parseFloat arg
      in if \<not> number_format arg \<or> isNaN num
           then Inl (ParseError (ParseErr NotANumber this))
         else if (case n_min f of None \<Rightarrow> False | Some m \<Rightarrow> num_less num m)
           then Inl (ParseError (ParseErr TooSmall this))
         else if (case n_max f of None \<Rightarrow> False | Some m \<Rightarrow> num_less m num)
           then Inl (ParseError (ParseErr TooBig this))
         else if n_int f \<and> has_fraction num
           then Inl (ParseError (ParseErr NotInteger this))
         else if n_forcePositive f \<and> num_le num (Fin 0)
           then Inl (ParseError (ParseErr NotPositive this))
         else if n_forceNegative f \<and> num_le (Fin 0) num
           then Inl (ParseError (ParseErr NotNegative this))
         else Inr (VNum num, rest))"

text \<open>\<open>arg.validate(args)\<close>: the method of the argument's class.\<close>

definition Argument_validate ::
  "engine \<Rightarrow> argument \<Rightarrow> jsstring \<Rightarrow> indexes \<Rightarrow> (error + val \<times> jsstring) \<times> indexes" where
  "Argument_validate en a args h =
     (case a_kind a of
        StringArgument f \<Rightarrow> StringArgument_validate en a f args h
      | RestArgument f \<Rightarrow> RestArgument_validate en a f args h
      | NumberArgument f \<Rightarrow> (NumberArgument_validate a f args, h))"

section \<open>Commands\<close>

text \<open>
  \<open>class Command\<close> with the fields of \<open>CommandBase\<close>. \<open>'m\<close> is the message a
  permission callback and an execution handler receive. A permission callback is the
  truth value its promise resolves to. An execution handler is called with the message
  and the validated arguments; its value tells whether its promise is fulfilled
  (\<open>True\<close>) or rejected. \<open>c_permissions\<close> are the names of the bot permissions the
  command requires, which are flag names of discord.js.
\<close>

text \<open>
  The object \<open>result\<close> of \<open>validateArgs\<close>, as the mapping from its own property names to
  their values. \<open>result[name] = value\<close> on an object created by \<open>{}\<close> makes or
  overwrites the property, except for the name \<open>__proto__\<close>: that one is an accessor
  the object inherits, whose setter ignores a value that is a string, a number or
  \<open>undefined\<close>, so nothing is stored.
\<close>

type_synonym arguments = "jsstring \<rightharpoonup> val"

definition set_property :: "arguments \<Rightarrow> jsstring \<Rightarrow> val \<Rightarrow> arguments" where
  "set_property result name v = (if name = js ''__proto__'' then result else result(name \<mapsto> v))"

record 'm command =
  c_name :: jsstring
  c_alias :: "jsstring list"
  c_help :: jsstring
  c_manual :: "jsstring list"
  c_permissionHandler :: "('m \<Rightarrow> bool) list"
  c_execHandler :: "('m \<Rightarrow> arguments \<Rightarrow> bool) list"
  c_arguments :: "argument list"
  c_permissions :: "string list"

definition new_Command :: "jsstring \<Rightarrow> 'm command" where
  "new_Command cmd =
     \<lparr>c_name = cmd, c_alias = [], c_help = [], c_manual = [], c_permissionHandler = [],
      c_execHandler = [], c_arguments = [], c_permissions = []\<rparr>"

definition checkPermission :: "('m \<Rightarrow> bool) \<Rightarrow> 'm command \<Rightarrow> 'm command" where
  "checkPermission callback c = c\<lparr>c_permissionHandler := c_permissionHandler c @ [callback]\<rparr>"

definition exec :: "('m \<Rightarrow> arguments \<Rightarrow> bool) \<Rightarrow> 'm command \<Rightarrow> 'm command" where
  "exec callback c = c\<lparr>c_execHandler := c_execHandler c @ [callback]\<rparr>"

definition addArgument :: "argument \<Rightarrow> 'm command \<Rightarrow> 'm command" where
  "addArgument arg c = c\<lparr>c_arguments := c_arguments c @ [arg]\<rparr>"

subsection \<open>The argument chain\<close>

text \<open>The three locals of \<open>Command.validateArgs\<close>, which it returns.\<close>

record validated =
  v_result :: arguments
  v_remaining :: jsstring
  v_errors :: "parse_error list"

text \<open>
  The body of the \<open>forEach\<close> of \<open>validateArgs\<close>, once per argument in declaration
  order. An error that is not caught ends the loop. The store of \<open>lastIndex\<close> values
  goes from one argument to the next.
\<close>

fun validateArgs_loop ::
  "engine \<Rightarrow> argument list \<Rightarrow> validated \<Rightarrow> indexes \<Rightarrow> (error + validated) \<times> indexes" where
  "validateArgs_loop en [] st h = (Inr st, h)"
| "validateArgs_loop en (arg # others) st h =
     (case Argument_validate en arg (v_remaining st) h of
        (Inr (v, rest), h') \<Rightarrow>
          validateArgs_loop en others
            (st\<lparr>v_result := set_property (v_result st) (a_name arg) v,
                v_remaining := trim rest\<rparr>) h'
      | (Inl e, h') \<Rightarrow>
          (case e of
             ParseError pe \<Rightarrow>
               if a_optional arg
               then validateArgs_loop en others
                      (st\<lparr>v_result := set_property (v_result st) (a_name arg) (a_default arg),
                          v_errors := v_errors st @ [pe]\<rparr>) h'
               else (Inl e, h')
           | _ \<Rightarrow> (Inl e, h')))"

definition validateArgs ::
  "engine \<Rightarrow> 'm command \<Rightarrow> jsstring \<Rightarrow> indexes \<Rightarrow> (error + validated) \<times> indexes" where
  "validateArgs en c args h =
     validateArgs_loop en (c_arguments c)
       \<lparr>v_result = Map.empty, v_remaining = trim args, v_errors = []\<rparr> h"

text \<open>\<open>errors.shift()\<close>: the first recorded error, \<open>undefined\<close> when there is none.\<close>

definition shift_error :: "parse_error list \<Rightarrow> parse_error option" where
  "shift_error es = (case es of [] \<Rightarrow> None | e # _ \<Rightarrow> Some e)"

definition validate ::
  "engine \<Rightarrow> 'm command \<Rightarrow> jsstring \<Rightarrow> indexes \<Rightarrow> (error + arguments) \<times> indexes" where
  "validate en c args h =
     (case validateArgs en c args h of
        (Inl e, h') \<Rightarrow> (Inl e, h')
      | (Inr st, h') \<Rightarrow>
          (if length (v_remaining st) > 0
           then Inl (TooManyArgumentsError (shift_error (v_errors st)))
           else Inr (v_result st), h'))"

subsection \<open>Dispatch\<close>

text \<open>
  \<open>CommandBase.isAllowed\<close>: every callback is called, and the results are combined
  with \<open>every\<close>. \<open>Command.hasPermission\<close> forwards to it.
\<close>

definition isAllowed :: "'m command \<Rightarrow> 'm \<Rightarrow> bool" where
  "isAllowed c client = list_all (\<lambda>r. r) (map (\<lambda>cb. cb client) (c_permissionHandler c))"

definition hasPermission :: "'m command \<Rightarrow> 'm \<Rightarrow> bool" where
  "hasPermission c client = isAllowed c client"

text \<open>
  How a dispatch ends. \<open>AuthorNotified\<close> and \<open>ChannelNotified\<close> are the two early
  returns of \<open>Command.dispatch\<close> (the promise is fulfilled, no handler was called).
  \<open>Rejected e\<close>: \<open>e\<close> was thrown before any handler was called. \<open>Executed rs\<close>: every
  handler was called, \<open>rs\<close> tells which of their promises were fulfilled; the
  dispatch is rejected when one of them is not (\<open>Promise.all\<close>).
\<close>

datatype outcome =
    AuthorNotified
  | ChannelNotified "string list"
  | Rejected error
  | Executed "bool list"

definition dispatchCommand :: "'m command \<Rightarrow> 'm \<Rightarrow> arguments \<Rightarrow> outcome" where
  "dispatchCommand c message arguments =
     (if \<not> hasPermission c message then Rejected PermissionError
      else Executed (map (\<lambda>handle. handle message arguments) (c_execHandler c)))"

text \<open>
  \<open>Command.dispatch\<close>. \<open>missing\<close> is what discord.js computes for
  \<open>botPermission.missing(this._permissions)\<close>: the names of the required permissions
  the bot does not hold in the channel. The two notices are messages sent through
  discord.js, taken to arrive. The argument \<open>this.validate(args)\<close> of the call of
  \<open>_dispatchCommand\<close> is evaluated before the call.
\<close>

definition dispatch ::
  "engine \<Rightarrow> 'm command \<Rightarrow> jsstring \<Rightarrow> 'm \<Rightarrow> string list \<Rightarrow> indexes \<Rightarrow> outcome \<times> indexes" where
  "dispatch en c args message missing h =
     (if ''SEND_MESSAGES'' \<in> set missing then (AuthorNotified, h)
      else if length missing > 0 then (ChannelNotified missing, h)
      else (case validate en c args h of
              (Inl e, h') \<Rightarrow> (Rejected e, h')
            | (Inr arguments, h') \<Rightarrow> (dispatchCommand c message arguments, h')))"

section \<open>The collector\<close>

text \<open>
  \<open>CommandCollector._commands\<close>. A command holds a reference to its collector and the
  collector a reference to each command, so a method of a command is modelled on the
  collector and the command's position in it.
\<close>

type_synonym 'm collector = "'m command list"

definition isValidCommandName :: "jsstring \<Rightarrow> error + bool" where
  "isValidCommandName name =
     (if length name < 1
        then Inl (Error (js ''Expect the length of command name more than 1''))
      else if list_ex is_space name
        then Inl (Error (js ''Command '' @ [34] @ name @ [34] @
                         js '' should not contain spaces!''))
      else Inr True)"

definition getCommandNames :: "'m command \<Rightarrow> jsstring list" where
  "getCommandNames c = c_name c # c_alias c"

definition getAvailableCommands ::
  "engine \<Rightarrow> 'm collector \<Rightarrow> jsstring \<Rightarrow> 'm command list" where
  "getAvailableCommands en coll name =
     filter (\<lambda>cmd. toLowerCase en name \<in> set (getCommandNames cmd)) coll"

text \<open>
  What \<open>Array.prototype.filter\<close> makes of a callback that returns an array: an array
  is an object, and every object is truthy, the empty array too.
\<close>

definition truthy_array :: "'a list \<Rightarrow> bool" where
  "truthy_array xs = True"

text \<open>\<open>alias.forEach(a => CommandCollector.isValidCommandName(a))\<close>: the first throw ends it.\<close>

fun all_valid_names :: "jsstring list \<Rightarrow> error + bool" where
  "all_valid_names [] = Inr True"
| "all_valid_names (a # others) =
     (case isValidCommandName a of Inl e \<Rightarrow> Inl e | Inr _ \<Rightarrow> all_valid_names others)"

text \<open>
  \<open>CommandBase.alias(...alias)\<close> of the command at position \<open>i\<close> of the collector
  (every command is created by \<open>registerCommand\<close>, which puts it there).
\<close>

definition alias_command ::
  "engine \<Rightarrow> 'm collector \<Rightarrow> nat \<Rightarrow> jsstring list \<Rightarrow> error + 'm collector" where
  "alias_command en coll i names =
     (let lowered = map (toLowerCase en) names
      in case all_valid_names lowered of
           Inl e \<Rightarrow> Inl e
         | Inr _ \<Rightarrow>
             Inr (coll[i := (coll ! i)
                    \<lparr>c_alias := c_alias (coll ! i) @
                       filter (\<lambda>a. truthy_array (getAvailableCommands en coll a)) lowered\<rparr>]))"

definition registerCommand :: "engine \<Rightarrow> 'm collector \<Rightarrow> jsstring \<Rightarrow> error + 'm collector" where
  "registerCommand en coll name =
     (case isValidCommandName (toLowerCase en name) of
        Inl e \<Rightarrow> Inl e
      | Inr _ \<Rightarrow> Inr (coll @ [new_Command (toLowerCase en name)]))"

definition isCommandCanSave :: "engine \<Rightarrow> 'm collector \<Rightarrow> jsstring \<Rightarrow> error + bool" where
  "isCommandCanSave en coll cmdName =
     (case isValidCommandName (toLowerCase en cmdName) of
        Inl e \<Rightarrow> Inl e
      | Inr _ \<Rightarrow>
          Inr (\<not> length (getAvailableCommands en coll (toLowerCase en cmdName)) > 0))"

text \<open>\<open>createCommand\<close>: the new command is the last of the collector returned.\<close>

definition createCommand :: "engine \<Rightarrow> 'm collector \<Rightarrow> jsstring \<Rightarrow> error + 'm collector" where
  "createCommand en coll cmdName =
     (case isCommandCanSave en coll cmdName of
        Inl e \<Rightarrow> Inl e
      | Inr ok \<Rightarrow>
          if \<not> ok then Inl (Error (js ''This command already exist!''))
          else registerCommand en coll cmdName)"

section \<open>The prefix cache\<close>

text \<open>
  The module's variables \<open>defaultPrefix\<close>, \<open>getPrefixCallback\<close>, \<open>setPrefixCallback\<close>
  and \<open>guildPrefixCache\<close>. The callbacks are the embedding application's: they act on
  its storage \<open>'w\<close>. A reader returns what its promise resolves to, \<open>None\<close> for
  \<open>undefined\<close> or \<open>null\<close>. \<open>calls\<close> is a record of the callback calls made so far, kept
  to count them. Guild ids are Discord snowflakes (decimal digits), so no key is the
  name of a property an empty object inherits.
\<close>

datatype call = ReadCall jsstring | WriteCall jsstring jsstring

record 'w prefixes =
  defaultPrefix :: jsstring
  getPrefixCallback :: "('w \<Rightarrow> jsstring \<Rightarrow> jsstring option \<times> 'w) option"
  setPrefixCallback :: "('w \<Rightarrow> jsstring \<Rightarrow> jsstring \<Rightarrow> 'w) option"
  guildPrefixCache :: "jsstring \<rightharpoonup> jsstring"
  storage :: 'w
  calls :: "call list"

text \<open>\<open>!result\<close> for a string or \<open>undefined\<close>.\<close>

definition falsy :: "jsstring option \<Rightarrow> bool" where
  "falsy r = (case r of None \<Rightarrow> True | Some s \<Rightarrow> s = [])"

text \<open>
  \<open>getPrefix\<close>. Calling \<open>setPrefixCallback\<close> while it is \<open>undefined\<close> is a TypeError.
\<close>

definition getPrefix :: "jsstring \<Rightarrow> 'w prefixes \<Rightarrow> error + jsstring \<times> 'w prefixes" where
  "getPrefix guildId s =
     (case guildPrefixCache s guildId of
        Some p \<Rightarrow> Inr (p, s)
      | None \<Rightarrow>
          (case getPrefixCallback s of
             Some rd \<Rightarrow>
               (let (result, w) = rd (storage s) guildId;
                    s1 = s\<lparr>storage := w, calls := calls s @ [ReadCall guildId]\<rparr>
                in if falsy result
                   then (case setPrefixCallback s of
                           None \<Rightarrow>
                             Inl (Error (js ''TypeError: setPrefixCallback is not a function''))
                         | Some wr \<Rightarrow>
                             Inr (defaultPrefix s,
                                  s1\<lparr>storage := wr w guildId (defaultPrefix s),
                                     calls := calls s1 @ [WriteCall guildId (defaultPrefix s)]\<rparr>))
                   else Inr (the result,
                             s1\<lparr>guildPrefixCache := (guildPrefixCache s1)(guildId \<mapsto> the result)\<rparr>))
           | None \<Rightarrow> Inr (defaultPrefix s, s)))"

definition setPrefix :: "jsstring \<Rightarrow> jsstring \<Rightarrow> 'w prefixes \<Rightarrow> 'w prefixes" where
  "setPrefix guildId prefix s =
     (let s1 = s\<lparr>guildPrefixCache := (guildPrefixCache s)(guildId \<mapsto> prefix)\<rparr>
      in case setPrefixCallback s1 of
           Some wr \<Rightarrow>
             s1\<lparr>storage := wr (storage s1) guildId prefix,
                calls := calls s1 @ [WriteCall guildId prefix]\<rparr>
         | None \<Rightarrow> s1)"

text \<open>How often the reader was called for a guild.\<close>

definition reads :: "jsstring \<Rightarrow> call list \<Rightarrow> nat" where
  "reads guildId cs = length (filter (\<lambda>c. c = ReadCall guildId) cs)"

section \<open>Sample commands and settings\<close>

text \<open>
  The case conversions of JavaScript on the code units up to U+00FF. Lower case: the
  letters A to Z and U+00C0 to U+00DE without the multiplication sign move up by 32.
  Upper case: the letters a to z and U+00E0 to U+00FE without the division sign move
  down by 32, the sharp s (223) becomes \<open>SS\<close>, the micro sign (181) becomes U+039C and
  the y with diaeresis (255) becomes U+0178. \<open>latin1\<close> is an engine that converts these
  code units so and leaves every other one alone; the samples below convert no string with
  a code unit above U+00FF.
\<close>

definition lower_unit :: "nat \<Rightarrow> nat" where
  "lower_unit c =
     (if (65 \<le> c \<and> c \<le> 90) \<or> (192 \<le> c \<and> c \<le> 222 \<and> c \<noteq> 215) then c + 32 else c)"

definition upper_units :: "nat \<Rightarrow> nat list" where
  "upper_units c =
     (if (97 \<le> c \<and> c \<le> 122) \<or> (224 \<le> c \<and> c \<le> 254 \<and> c \<noteq> 247) then [c - 32]
      else if c = 223 then [83, 83]
      else if c = 181 then [924]
      else if c = 255 then [376]
      else [c])"

definition latin1 :: engine where
  "latin1 = \<lparr>toUpperCase = (\<lambda>s. concat (map upper_units s)), toLowerCase = map lower_unit\<rparr>"

text \<open>The store in which every \<open>lastIndex\<close> is 0, as it is for new \<open>RegExp\<close> objects.\<close>

definition zeros :: indexes where
  "zeros = (\<lambda>_. 0)"

text \<open>A command with one handler, no argument and no permission callback.\<close>

definition ping :: "unit command" where
  "ping = exec (\<lambda>_ _. True) (new_Command (js ''ping''))"

text \<open>A permission callback that refuses everybody, and a command that has it.\<close>

definition deny :: "unit \<Rightarrow> bool" where
  "deny client = False"

definition guarded :: "unit command" where
  "guarded = exec (\<lambda>_ _. True) (checkPermission deny (new_Command (js ''guarded'')))"

text \<open>
  \<open>createArgument("string")\<close> and \<open>createArgument("number")\<close> after \<open>setName(name)\<close>
  and the builder calls that leave the fields \<open>f\<close>.
\<close>

definition string_arg :: "jsstring \<Rightarrow> string_fields \<Rightarrow> argument" where
  "string_arg name f = (new_Argument (StringArgument f))\<lparr>a_display := name, a_name := name\<rparr>"

definition number_arg :: "jsstring \<Rightarrow> number_fields \<Rightarrow> argument" where
  "number_arg name f = (new_Argument (NumberArgument f))\<lparr>a_display := name, a_name := name\<rparr>"

text \<open>
  An optional \<open>StringArgument\<close> named \<open>word\<close>, at most three characters long, with
  the default \<open>"x"\<close>, and a command that has it as its only argument. Then the same
  with the name \<open>__proto__\<close>.
\<close>

definition opt_x :: argument where
  "opt_x = optional (VStr (js ''x'')) True
             (string_arg (js ''word'') (max_length 3 new_StringArgument))"

definition with_opt_x :: "unit command" where
  "with_opt_x = addArgument opt_x (new_Command (js ''say''))"

definition opt_proto :: argument where
  "opt_proto = optional (VStr (js ''x'')) True
                 (string_arg (js ''__proto__'') (max_length 3 new_StringArgument))"

definition with_opt_proto :: "unit command" where
  "with_opt_proto = addArgument opt_proto (new_Command (js ''say''))"

text \<open>
  Prefix callbacks over a table of stored prefixes, and the module's state before any
  message with these callbacks set and \<open>!\<close> as the default prefix.
\<close>

definition db_read ::
  "(jsstring \<rightharpoonup> jsstring) \<Rightarrow> jsstring \<Rightarrow> jsstring option \<times> (jsstring \<rightharpoonup> jsstring)" where
  "db_read w guildId = (w guildId, w)"

definition db_write ::
  "(jsstring \<rightharpoonup> jsstring) \<Rightarrow> jsstring \<Rightarrow> jsstring \<Rightarrow> (jsstring \<rightharpoonup> jsstring)" where
  "db_write w guildId prefix = w(guildId \<mapsto> prefix)"

definition fresh :: "(jsstring \<rightharpoonup> jsstring) prefixes" where
  "fresh =
     \<lparr>defaultPrefix = js ''!'', getPrefixCallback = Some db_read,
      setPrefixCallback = Some db_write, guildPrefixCache = Map.empty, storage = Map.empty,
      calls = []\<rparr>"

text \<open>
  A required \<open>StringArgument\<close> named \<open>text\<close> without any constraint, and a command
  that has it as its only argument.
\<close>

definition text_arg :: argument where
  "text_arg = string_arg (js ''text'') new_StringArgument"

definition echo :: "unit command" where
  "echo = addArgument text_arg (new_Command (js ''echo''))"

text \<open>
  A \<open>StringArgument\<close> after the builder calls \<open>min(2)\<close>, \<open>max(5)\<close>,
  \<open>forceUpperCase()\<close>, \<open>forceLowerCase()\<close>; one after \<open>min(1)\<close>, \<open>max(1)\<close>,
  \<open>forceUpperCase()\<close>; and one after \<open>max(-1)\<close>.
\<close>

definition word_2_5 :: string_fields where
  "word_2_5 = built [Min 2, Max 5, ForceUpperCase, ForceLowerCase]"

definition word_arg :: argument where
  "word_arg = string_arg (js ''word'') word_2_5"

definition capital_arg :: argument where
  "capital_arg = string_arg (js ''letter'') (built [Min 1, Max 1, ForceUpperCase])"

definition below_zero_arg :: argument where
  "below_zero_arg = string_arg (js ''word'') (max_length (- 1) new_StringArgument)"

text \<open>
  The regular expression \<open>/a/g\<close>: the match starts at the first \<open>a\<close> (code unit 97) from
  the index on and ends behind it. And a \<open>StringArgument\<close> that must match it.
\<close>

definition find_a :: "nat \<Rightarrow> jsstring \<Rightarrow> nat option" where
  "find_a i s =
     (if 97 \<in> set (drop i s)
      then Some (i + length (takeWhile (\<lambda>c. c \<noteq> 97) (drop i s)) + 1) else None)"

definition a_global :: regex where
  "a_global = \<lparr>re_id = 0, re_keeps_index = True, re_match = find_a\<rparr>"

definition has_a_arg :: argument where
  "has_a_arg = string_arg (js ''word'') (match_regex a_global new_StringArgument)"

text \<open>
  A \<open>NumberArgument\<close> named \<open>count\<close> without any constraint, and the decimal numeral
  of \<open>10 ^ 309\<close>: the digit 1 followed by 309 zeros.
\<close>

definition count_arg :: argument where
  "count_arg = number_arg (js ''count'') new_NumberArgument"

definition huge :: jsstring where
  "huge = 49 # replicate 309 48"

section \<open>Properties\<close>

subsection \<open>Strings\<close>

lemma split_space_nonempty: "split_space s \<noteq> []"
  by (induction s) (auto split: list.splits)

lemma join_split_space: "join_space (split_space s) = s"
proof (induction s)
  case Nil
  show ?case by simp
next
  case (Cons c cs)
  obtain w ws where sp: "split_space cs = w # ws"
    using split_space_nonempty [of cs] by (cases "split_space cs") auto
  show ?case
    using Cons sp by (cases ws) auto
qed

text \<open>The token ends at the first space; what follows that space comes back as it is.\<close>

lemma shift_token_eq: "shift_token s = (first_token s, after_token s)"
proof (induction s)
  case Nil
  show ?case by (simp add: shift_token_def first_token_def after_token_def)
next
  case (Cons c cs)
  show ?case
  proof (cases "c = 32")
    case True
    then show ?thesis
      by (simp add: shift_token_def first_token_def after_token_def join_split_space)
  next
    case False
    obtain w ws where sp: "split_space cs = w # ws"
      using split_space_nonempty [of cs] by (cases "split_space cs") auto
    with Cons False show ?thesis
      by (simp add: shift_token_def first_token_def after_token_def)
  qed
qed

lemma first_token_split:
  "32 \<notin> set (first_token args) \<and>
   (32 \<notin> set args \<longrightarrow> first_token args = args \<and> after_token args = []) \<and>
   (32 \<in> set args \<longrightarrow> args = first_token args @ 32 # after_token args)"
proof (intro conjI impI)
  show "32 \<notin> set (first_token args)"
    by (auto simp: first_token_def dest: set_takeWhileD)
  show "first_token args = args" if "32 \<notin> set args"
    using that by (auto simp: first_token_def intro: takeWhile_eq_all_conv [THEN iffD2])
  show "after_token args = []" if "32 \<notin> set args"
    using that by (induction args) (auto simp: after_token_def)
  show "args = first_token args @ 32 # after_token args" if "32 \<in> set args"
    using that by (induction args) (auto simp: first_token_def after_token_def)
qed

lemma dropWhile_snoc: "\<not> P x \<Longrightarrow> dropWhile P (ys @ [x]) = dropWhile P ys @ [x]"
  by (induction ys) auto

lemma trim_Nil: "trim [] = []"
  by (simp add: trim_def)

lemma trim_cases:
  "trim s = [] \<or> (\<exists>x t. \<not> is_space x \<and> trim s = x # rev (dropWhile is_space (rev t)))"
proof (cases "dropWhile is_space s")
  case Nil
  show ?thesis unfolding trim_def Nil by simp
next
  case (Cons x t)
  then have "\<not> is_space x"
    by (metis hd_dropWhile list.sel(1) list.distinct(1))
  then show ?thesis
    unfolding trim_def Cons by (auto simp: dropWhile_snoc)
qed

lemma trim_trim: "trim (trim s) = trim s"
proof -
  from trim_cases [of s] show ?thesis
  proof
    assume "trim s = []"
    then show ?thesis by (simp add: trim_Nil)
  next
    assume "\<exists>x t. \<not> is_space x \<and> trim s = x # rev (dropWhile is_space (rev t))"
    then obtain x t where x: "\<not> is_space x"
      and t: "trim s = x # rev (dropWhile is_space (rev t))" by blast
    have "trim (x # rev (dropWhile is_space (rev t))) = x # rev (dropWhile is_space (rev t))"
      using x by (simp add: trim_def dropWhile_snoc)
    with t show ?thesis by simp
  qed
qed

text \<open>Sample strings, trimmed and cut.\<close>

lemma sample_trims:
  "trim (js ''toolong'') = js ''toolong''" "trim (js ''foo'') = js ''foo''"
  "trim (js ''  '') = []" "trim [97, 9, 98] = [97, 9, 98]"
  by (simp_all add: trim_def is_space_def js_def)

lemma sample_tokens:
  "first_token (js ''toolong'') = js ''toolong''" "after_token (js ''toolong'') = []"
  "first_token (js ''Hello world'') = js ''Hello''"
  "after_token (js ''Hello world'') = js ''world''"
  "first_token (js ''Hi  there you'') = js ''Hi''"
  "after_token (js ''Hi  there you'') = js '' there you''"
  "first_token (js ''A b'') = js ''A''" "first_token (js ''Goodbye'') = js ''Goodbye''"
  "first_token [97, 9, 98] = [97, 9, 98]" "after_token [97, 9, 98] = []"
  "first_token [223] = [223]" "after_token [223] = []"
  "first_token (js ''a'') = js ''a''" "after_token (js ''a'') = []"
  by (simp_all add: first_token_def after_token_def js_def)

lemma proto_is_a_name: "js ''word'' \<noteq> js ''__proto__''" "js ''text'' \<noteq> js ''__proto__''"
  by (simp_all add: js_def)

subsection \<open>Errors of the argument chain\<close>

lemma StringArgument_validate'_error:
  "fst (StringArgument_validate' en a f s r h) = Inl e \<Longrightarrow> \<exists>c. e = ParseError (ParseErr c a)"
  by (auto simp: StringArgument_validate'_def Let_def split: if_splits option.splits prod.splits)

lemma Argument_validate_error:
  "fst (Argument_validate en a s h) = Inl e \<Longrightarrow> \<exists>c. e = ParseError (ParseErr c a)"
  by (auto simp: Argument_validate_def StringArgument_validate_def RestArgument_validate_def
      NumberArgument_validate_def Let_def
      dest: StringArgument_validate'_error split: arg_kind.splits prod.splits if_splits)

lemma validateArgs_loop_error:
  "fst (validateArgs_loop en as st h) = Inl e \<Longrightarrow> \<exists>pe. e = ParseError pe"
proof (induction as arbitrary: st h)
  case Nil
  then show ?case by simp
next
  case (Cons a as)
  obtain r h' where av: "Argument_validate en a (v_remaining st) h = (r, h')"
    by (cases "Argument_validate en a (v_remaining st) h")
  show ?case
  proof (cases r)
    case (Inl e')
    with av obtain c where e': "e' = ParseError (ParseErr c a)"
      using Argument_validate_error [of en a "v_remaining st" h e'] by auto
    with Cons Inl av show ?thesis by (auto split: if_splits)
  next
    case (Inr p)
    with Cons av show ?thesis by (cases p) auto
  qed
qed

text \<open>The remaining input stays trimmed along the chain.\<close>

lemma validateArgs_loop_trimmed:
  "validateArgs_loop en as st h = (Inr st', h') \<Longrightarrow> trim (v_remaining st) = v_remaining st
     \<Longrightarrow> trim (v_remaining st') = v_remaining st'"
proof (induction as arbitrary: st h)
  case Nil
  then show ?case by simp
next
  case (Cons a as)
  obtain r h1 where av: "Argument_validate en a (v_remaining st) h = (r, h1)"
    by (cases "Argument_validate en a (v_remaining st) h")
  show ?case
  proof (cases r)
    case (Inl e')
    with av obtain c where e': "e' = ParseError (ParseErr c a)"
      using Argument_validate_error [of en a "v_remaining st" h e'] by auto
    with Cons.prems Inl av have "a_optional a" by (auto split: if_splits)
    with Cons.prems Inl e' av show ?thesis
      by (auto intro!: Cons.IH
          [where st = "st\<lparr>v_result := set_property (v_result st) (a_name a) (a_default a),
                          v_errors := v_errors st @ [ParseErr c a]\<rparr>" and h = h1])
  next
    case (Inr p)
    obtain v rest where p: "p = (v, rest)" by (cases p)
    with Cons.prems Inr av show ?thesis
      by (auto intro!: Cons.IH
          [where st = "st\<lparr>v_result := set_property (v_result st) (a_name a) v,
             v_remaining := trim rest\<rparr>" and h = h1] simp: trim_trim)
  qed
qed

text \<open>What \<open>Command.validate\<close> throws is a \<open>ParseError\<close> or a \<open>TooManyArgumentsError\<close>.\<close>

lemma validate_error:
  "fst (validate en c args h) = Inl e \<Longrightarrow>
     (\<exists>pe. e = ParseError pe) \<or> (\<exists>x. e = TooManyArgumentsError x)"
proof -
  assume a: "fst (validate en c args h) = Inl e"
  obtain r h' where v: "validateArgs en c args h = (r, h')"
    by (cases "validateArgs en c args h")
  show ?thesis
  proof (cases r)
    case (Inl e')
    with v have "fst (validateArgs_loop en (c_arguments c)
       \<lparr>v_result = Map.empty, v_remaining = trim args, v_errors = []\<rparr> h) = Inl e'"
      by (simp add: validateArgs_def)
    then have "\<exists>pe. e' = ParseError pe" by (rule validateArgs_loop_error)
    with a v Inl show ?thesis by (auto simp: validate_def)
  next
    case (Inr st)
    with a v show ?thesis by (auto simp: validate_def split: if_splits)
  qed
qed

lemma validate_not_permission: "fst (validate en c args h) \<noteq> Inl PermissionError"
  using validate_error [of en c args h PermissionError] by auto

subsection \<open>Permission callbacks\<close>

text \<open>
  C10. A command with no permission callback: \<open>isAllowed\<close>, and with it
  \<open>hasPermission\<close>, is true for every message (\<open>every\<close> over no result), and no
  dispatch of the command ends in a \<open>PermissionError\<close>, whatever the argument text and
  the missing bot permissions are.
\<close>

theorem empty_permission_list_allows:
  "c_permissionHandler c = [] \<Longrightarrow>
     isAllowed c client \<and> hasPermission c client \<and>
     fst (dispatch en c args client missing h) \<noteq> Rejected PermissionError"
  using validate_not_permission [of en c args h]
  by (auto simp: isAllowed_def hasPermission_def dispatch_def dispatchCommand_def
      split: sum.splits prod.splits)

theorem empty_permission_list_allows_witness:
  "c_permissionHandler ping = [] \<and> isAllowed ping () \<and> hasPermission ping () \<and>
   fst (dispatch latin1 ping [] () [] zeros) \<noteq> Rejected PermissionError"
  using empty_permission_list_allows [of ping "()" latin1 "[]" "[]" zeros]
  by (simp add: ping_def exec_def new_Command_def)

subsection \<open>The argument chain\<close>

lemma sample_facts:
  "c_arguments ping = []" "c_permissionHandler ping = []" "c_execHandler ping = [\<lambda>_ _. True]"
  "c_arguments with_opt_x = [opt_x]"
  "a_kind opt_x = StringArgument (max_length 3 new_StringArgument)"
  "a_optional opt_x" "a_default opt_x = VStr (js ''x'')" "a_name opt_x = js ''word''"
  "c_arguments with_opt_proto = [opt_proto]"
  "a_kind opt_proto = StringArgument (max_length 3 new_StringArgument)"
  "a_optional opt_proto" "a_default opt_proto = VStr (js ''x'')"
  "a_name opt_proto = js ''__proto__''"
  by (simp_all add: ping_def exec_def new_Command_def with_opt_x_def with_opt_proto_def
      addArgument_def opt_x_def opt_proto_def optional_def string_arg_def new_Argument_def)

lemma toolong_rejected:
  "StringArgument_validate en this (max_length 3 new_StringArgument) (js ''toolong'') h =
     (Inl (ParseError (ParseErr TooLong this)), h)"
  by (simp add: StringArgument_validate_def shift_token_eq sample_tokens
      StringArgument_validate'_def fold_case_def max_length_def new_StringArgument_def)
     (simp add: js_def)

lemma opt_x_rejects_toolong:
  "Argument_validate en opt_x (js ''toolong'') h = (Inl (ParseError (ParseErr TooLong opt_x)), h)"
  "Argument_validate en opt_proto (js ''toolong'') h =
     (Inl (ParseError (ParseErr TooLong opt_proto)), h)"
  by (simp_all add: Argument_validate_def sample_facts toolong_rejected)




text \<open>
  C5. When \<open>validateArgs\<close> has gone through all the arguments, the remaining input it
  returns is trimmed, and \<open>Command.validate\<close> throws a \<open>TooManyArgumentsError\<close> exactly
  when that remaining input is not empty; the error carries the first recorded
  \<open>ParseError\<close> of an optional argument, or nothing when none was recorded. Otherwise
  \<open>validate\<close> returns the result mapping. A command without arguments fails in this way
  on \<open>"foo"\<close> and returns the empty mapping on \<open>""\<close>.
\<close>

theorem trailing_input:
  "(validateArgs en c args h = (Inr st, h') \<longrightarrow>
      trim (v_remaining st) = v_remaining st \<and>
      (v_remaining st \<noteq> [] \<longrightarrow>
         validate en c args h =
           (Inl (TooManyArgumentsError (shift_error (v_errors st))), h')) \<and>
      (v_remaining st = [] \<longrightarrow> validate en c args h = (Inr (v_result st), h'))) \<and>
   (fst (validate en c args h) = Inl (TooManyArgumentsError x) \<longrightarrow>
      (\<exists>st h'. validateArgs en c args h = (Inr st, h') \<and> v_remaining st \<noteq> [] \<and>
            x = (case v_errors st of [] \<Rightarrow> None | pe # _ \<Rightarrow> Some pe))) \<and>
   (c_arguments c = [] \<longrightarrow>
      validate en c args h =
        (if trim args = [] then Inr Map.empty else Inl (TooManyArgumentsError None), h))"
proof (intro conjI impI)
  assume ok: "validateArgs en c args h = (Inr st, h')"
  then show "trim (v_remaining st) = v_remaining st"
    unfolding validateArgs_def by (rule validateArgs_loop_trimmed) (simp add: trim_trim)
  show "validate en c args h = (Inl (TooManyArgumentsError (shift_error (v_errors st))), h')"
    if "v_remaining st \<noteq> []" using ok that by (simp add: validate_def)
  show "validate en c args h = (Inr (v_result st), h')"
    if "v_remaining st = []" using ok that by (simp add: validate_def)
next
  assume a: "fst (validate en c args h) = Inl (TooManyArgumentsError x)"
  obtain r h' where v: "validateArgs en c args h = (r, h')"
    by (cases "validateArgs en c args h")
  show "\<exists>st h'. validateArgs en c args h = (Inr st, h') \<and> v_remaining st \<noteq> [] \<and>
            x = (case v_errors st of [] \<Rightarrow> None | pe # _ \<Rightarrow> Some pe)"
  proof (cases r)
    case (Inl e)
    with v have "fst (validateArgs_loop en (c_arguments c)
       \<lparr>v_result = Map.empty, v_remaining = trim args, v_errors = []\<rparr> h) = Inl e"
      by (simp add: validateArgs_def)
    then have "\<exists>pe. e = ParseError pe" by (rule validateArgs_loop_error)
    with a v Inl show ?thesis by (auto simp: validate_def)
  next
    case (Inr st)
    with a v show ?thesis
      by (auto simp: validate_def shift_error_def split: if_splits)
  qed
next
  assume "c_arguments c = []"
  then show "validate en c args h =
        (if trim args = [] then Inr Map.empty else Inl (TooManyArgumentsError None), h)"
    by (simp add: validate_def validateArgs_def shift_error_def)
qed

lemma with_opt_x_toolong:
  "validateArgs en with_opt_x (js ''toolong'') h =
     (Inr \<lparr>v_result = [js ''word'' \<mapsto> VStr (js ''x'')], v_remaining = js ''toolong'',
           v_errors = [ParseErr TooLong opt_x]\<rparr>, h)"
  by (simp add: validateArgs_def sample_facts sample_trims opt_x_rejects_toolong
      set_property_def proto_is_a_name)

theorem trailing_input_witness:
  "validate latin1 ping (js ''foo'') zeros = (Inl (TooManyArgumentsError None), zeros) \<and>
   validate latin1 ping [] zeros = (Inr Map.empty, zeros) \<and>
   validate latin1 with_opt_x (js ''toolong'') zeros =
     (Inl (TooManyArgumentsError (Some (ParseErr TooLong opt_x))), zeros)"
proof -
  have nonempty: "js ''foo'' \<noteq> []" "js ''toolong'' \<noteq> []"
    by (simp_all add: js_def)
  have 1: "validate latin1 ping (js ''foo'') zeros = (Inl (TooManyArgumentsError None), zeros)"
    using trailing_input [of latin1 ping "js ''foo''" zeros undefined zeros None] nonempty
    by (simp add: sample_facts sample_trims)
  have 2: "validate latin1 ping [] zeros = (Inr Map.empty, zeros)"
    using trailing_input [of latin1 ping "[]" zeros undefined zeros None]
    by (simp add: sample_facts trim_Nil)
  have 3: "validate latin1 with_opt_x (js ''toolong'') zeros =
     (Inl (TooManyArgumentsError (Some (ParseErr TooLong opt_x))), zeros)"
    using trailing_input [of latin1 with_opt_x "js ''toolong''" zeros
        "\<lparr>v_result = [js ''word'' \<mapsto> VStr (js ''x'')], v_remaining = js ''toolong'',
          v_errors = [ParseErr TooLong opt_x]\<rparr>" zeros None]
      with_opt_x_toolong [of latin1 zeros] nonempty
    by (simp add: shift_error_def)
  from 1 2 3 show ?thesis by simp
qed

subsection \<open>Dispatch\<close>

lemma guarded_facts:
  "c_arguments guarded = []" "c_permissionHandler guarded = [deny]"
  "c_execHandler guarded = [\<lambda>_ _. True]"
  by (simp_all add: guarded_def exec_def checkPermission_def new_Command_def)

lemma validate_guarded:
  "validate en guarded (js ''foo'') h = (Inl (TooManyArgumentsError None), h)"
  "validate en guarded [] h = (Inr Map.empty, h)"
  by (simp_all add: validate_def validateArgs_def guarded_facts sample_trims trim_Nil
      shift_error_def) (simp add: js_def)

text \<open>
  C1, as the claim states it, asks for a \<open>PermissionError\<close> when a permission callback
  refuses and the argument text is invalid. The command \<open>guarded\<close> has a callback that
  refuses and takes no argument: dispatched with the text \<open>"foo"\<close> it is rejected with
  a \<open>TooManyArgumentsError\<close>, and when a bot permission is missing the dispatch ends
  with the report to the channel.
\<close>

theorem permission_checked_after_arguments:
  "\<not> isAllowed guarded () \<and>
   validate latin1 guarded (js ''foo'') zeros = (Inl (TooManyArgumentsError None), zeros) \<and>
   dispatch latin1 guarded (js ''foo'') () [] zeros =
     (Rejected (TooManyArgumentsError None), zeros) \<and>
   dispatch latin1 guarded (js ''foo'') () [''EMBED_LINKS''] zeros =
     (ChannelNotified [''EMBED_LINKS''], zeros)"
  by (simp add: dispatch_def validate_guarded isAllowed_def guarded_facts deny_def)

text \<open>
  C1, amended. \<open>Command.dispatch\<close> goes through its phases in this order: the bot's
  permissions (a missing \<open>SEND_MESSAGES\<close> ends it with the notice to the author, any
  other missing permission with the report to the channel), then the validation of the
  argument text (its error is thrown; it is a \<open>ParseError\<close> or a
  \<open>TooManyArgumentsError\<close>, never a \<open>PermissionError\<close>), then the permission callbacks
  (\<open>PermissionError\<close> when one refuses), then the handlers. So when a callback refuses
  and the argument text is invalid the dispatch fails with the validation's error, and
  the handlers are called only when no bot permission is missing, the text is valid and
  every callback allows; then all of them are called with the validated arguments.
\<close>

theorem dispatch_phases:
  "(''SEND_MESSAGES'' \<in> set missing \<longrightarrow>
      fst (dispatch en c args message missing h) = AuthorNotified) \<and>
   (''SEND_MESSAGES'' \<notin> set missing \<and> missing \<noteq> [] \<longrightarrow>
      fst (dispatch en c args message missing h) = ChannelNotified missing) \<and>
   (missing = [] \<and> fst (validate en c args h) = Inl e \<longrightarrow>
      fst (dispatch en c args message missing h) = Rejected e \<and> e \<noteq> PermissionError \<and>
      ((\<exists>pe. e = ParseError pe) \<or> (\<exists>x. e = TooManyArgumentsError x))) \<and>
   (missing = [] \<and> fst (validate en c args h) = Inr r \<and> \<not> isAllowed c message \<longrightarrow>
      fst (dispatch en c args message missing h) = Rejected PermissionError) \<and>
   (missing = [] \<and> fst (validate en c args h) = Inr r \<and> isAllowed c message \<longrightarrow>
      fst (dispatch en c args message missing h) =
        Executed (map (\<lambda>handle. handle message r) (c_execHandler c))) \<and>
   (fst (dispatch en c args message missing h) = Executed rs \<longrightarrow>
      missing = [] \<and> isAllowed c message \<and>
      (\<exists>r. fst (validate en c args h) = Inr r \<and>
           rs = map (\<lambda>handle. handle message r) (c_execHandler c)))"
proof (intro conjI impI)
  obtain v h' where v: "validate en c args h = (v, h')"
    by (cases "validate en c args h")
  show "fst (dispatch en c args message missing h) = AuthorNotified"
    if "''SEND_MESSAGES'' \<in> set missing"
    using that by (simp add: dispatch_def)
  show "fst (dispatch en c args message missing h) = ChannelNotified missing"
    if "''SEND_MESSAGES'' \<notin> set missing \<and> missing \<noteq> []"
    using that by (simp add: dispatch_def)
  show "fst (dispatch en c args message missing h) = Rejected e"
    if "missing = [] \<and> fst (validate en c args h) = Inl e"
    using that v by (simp add: dispatch_def)
  show "e \<noteq> PermissionError"
    if "missing = [] \<and> fst (validate en c args h) = Inl e"
    using that validate_not_permission [of en c args h] by auto
  show "(\<exists>pe. e = ParseError pe) \<or> (\<exists>x. e = TooManyArgumentsError x)"
    if "missing = [] \<and> fst (validate en c args h) = Inl e"
    using that validate_error [of en c args h e] by auto
  show "fst (dispatch en c args message missing h) = Rejected PermissionError"
    if "missing = [] \<and> fst (validate en c args h) = Inr r \<and> \<not> isAllowed c message"
    using that v by (simp add: dispatch_def dispatchCommand_def hasPermission_def)
  show "fst (dispatch en c args message missing h) =
        Executed (map (\<lambda>handle. handle message r) (c_execHandler c))"
    if "missing = [] \<and> fst (validate en c args h) = Inr r \<and> isAllowed c message"
    using that v by (simp add: dispatch_def dispatchCommand_def hasPermission_def)
next
  obtain v h' where v: "validate en c args h = (v, h')"
    by (cases "validate en c args h")
  assume ex: "fst (dispatch en c args message missing h) = Executed rs"
  then show m: "missing = []"
    by (cases missing) (auto simp: dispatch_def split: if_splits)
  from ex m v obtain r where r: "v = Inr r"
    by (cases v) (auto simp: dispatch_def)
  from ex m r v show "isAllowed c message"
    by (auto simp: dispatch_def dispatchCommand_def hasPermission_def split: if_splits)
  from ex m r v
  show "\<exists>r. fst (validate en c args h) = Inr r \<and>
           rs = map (\<lambda>handle. handle message r) (c_execHandler c)"
    by (auto simp: dispatch_def dispatchCommand_def hasPermission_def split: if_splits)
qed

theorem dispatch_phases_witness:
  "fst (dispatch latin1 guarded (js ''foo'') () [''SEND_MESSAGES'', ''EMBED_LINKS''] zeros) =
     AuthorNotified \<and>
   fst (dispatch latin1 guarded (js ''foo'') () [''EMBED_LINKS''] zeros) =
     ChannelNotified [''EMBED_LINKS''] \<and>
   fst (dispatch latin1 guarded (js ''foo'') () [] zeros) =
     Rejected (TooManyArgumentsError None) \<and>
   fst (dispatch latin1 guarded [] () [] zeros) = Rejected PermissionError \<and>
   fst (dispatch latin1 ping [] () [] zeros) = Executed [True]"
proof -
  have vp: "validate latin1 ping [] zeros = (Inr Map.empty, zeros)"
    by (simp add: validate_def validateArgs_def sample_facts trim_Nil)
  have a: "\<not> isAllowed guarded ()" "isAllowed ping ()"
    by (simp_all add: isAllowed_def guarded_facts sample_facts deny_def)
  have 1: "fst (dispatch latin1 guarded (js ''foo'') ()
                 [''SEND_MESSAGES'', ''EMBED_LINKS''] zeros) = AuthorNotified"
    using dispatch_phases [of "[''SEND_MESSAGES'', ''EMBED_LINKS'']" latin1 guarded
        "js ''foo''" "()" zeros PermissionError Map.empty "[]"]
    by simp
  have 2: "fst (dispatch latin1 guarded (js ''foo'') () [''EMBED_LINKS''] zeros) =
             ChannelNotified [''EMBED_LINKS'']"
    using dispatch_phases [of "[''EMBED_LINKS'']" latin1 guarded "js ''foo''" "()" zeros
        PermissionError Map.empty "[]"]
    by simp
  have 3: "fst (dispatch latin1 guarded (js ''foo'') () [] zeros) =
             Rejected (TooManyArgumentsError None)"
    using dispatch_phases [of "[]" latin1 guarded "js ''foo''" "()" zeros
        "TooManyArgumentsError None" Map.empty "[]"] validate_guarded(1) [of latin1 zeros]
    by simp
  have 4: "fst (dispatch latin1 guarded [] () [] zeros) = Rejected PermissionError"
    using dispatch_phases [of "[]" latin1 guarded "[]" "()" zeros PermissionError Map.empty "[]"]
      validate_guarded(2) [of latin1 zeros] a(1)
    by simp
  have 5: "fst (dispatch latin1 ping [] () [] zeros) = Executed [True]"
    using dispatch_phases [of "[]" latin1 ping "[]" "()" zeros PermissionError Map.empty "[]"]
      vp a(2) sample_facts(3)
    by simp
  from 1 2 3 4 5 show ?thesis by simp
qed

subsection \<open>The collector\<close>

lemma lower_a:
  "toLowerCase latin1 (js ''a'') = js ''a''" "toLowerCase latin1 (js ''b'') = js ''b''"
  "toLowerCase latin1 (js ''A'') = js ''a''"
  by (simp_all add: latin1_def lower_unit_def js_def)

text \<open>
  C2. The filter in \<open>alias\<close> keeps every alias, because its callback returns an array:
  when the lowered names are all valid, all of them are appended to the command's
  aliases, whether or not a command of the collector already answers to one of them. In
  the instance: after commands \<open>a\<close> and \<open>b\<close> are created, a third command \<open>A\<close> is
  refused, but \<open>b\<close> takes the alias \<open>A\<close> and the name \<open>a\<close> then finds both commands.
\<close>

theorem alias_keeps_every_valid_name:
  "all_valid_names (map (toLowerCase en) names) = Inr ok \<Longrightarrow>
     alias_command en coll i names =
       Inr (coll[i := (coll ! i)\<lparr>c_alias := c_alias (coll ! i) @ map (toLowerCase en) names\<rparr>])"
  by (simp add: alias_command_def truthy_array_def)

theorem alias_keeps_every_valid_name_witness:
  "createCommand latin1 ([] :: unit collector) (js ''a'') = Inr [new_Command (js ''a'')] \<and>
   createCommand latin1 [new_Command (js ''a'') :: unit command] (js ''b'') =
     Inr [new_Command (js ''a''), new_Command (js ''b'')] \<and>
   createCommand latin1 [new_Command (js ''a'') :: unit command, new_Command (js ''b'')]
       (js ''A'') =
     Inl (Error (js ''This command already exist!'')) \<and>
   alias_command latin1 [new_Command (js ''a'') :: unit command, new_Command (js ''b'')] 1
       [js ''A''] =
     Inr [new_Command (js ''a''), (new_Command (js ''b''))\<lparr>c_alias := [js ''a'']\<rparr>] \<and>
   getAvailableCommands latin1 [new_Command (js ''a'') :: unit command,
       (new_Command (js ''b''))\<lparr>c_alias := [js ''a'']\<rparr>] (js ''a'') =
     [new_Command (js ''a''), (new_Command (js ''b''))\<lparr>c_alias := [js ''a'']\<rparr>]"
proof -
  have ne: "js ''a'' \<noteq> js ''b''" "js ''b'' \<noteq> js ''a''"
    "length (js ''a'') = 1" "length (js ''b'') = 1"
    "\<not> list_ex is_space (js ''a'')" "\<not> list_ex is_space (js ''b'')"
    by (simp_all add: js_def is_space_def)
  have v: "all_valid_names (map (toLowerCase latin1) [js ''A'']) = Inr True"
    by (simp add: lower_a isValidCommandName_def ne)
  from alias_keeps_every_valid_name
    [OF v, of "[new_Command (js ''a'') :: unit command, new_Command (js ''b'')]" 1]
  show ?thesis
    by (simp add: createCommand_def isCommandCanSave_def registerCommand_def
        isValidCommandName_def getAvailableCommands_def getCommandNames_def lower_a
        ne new_Command_def)
qed

subsection \<open>The prefix cache\<close>

text \<open>
  C8. \<open>setPrefix\<close> stores the prefix in the cache whatever the cache held, and calls
  the writer once when one is set (leaving the storage alone otherwise). A \<open>getPrefix\<close>
  for the same guild right after it returns that prefix and changes nothing: the reader
  is not called.
\<close>

theorem setPrefix_then_getPrefix:
  "guildPrefixCache (setPrefix g p s) = (guildPrefixCache s)(g \<mapsto> p) \<and>
   (case setPrefixCallback s of
      None \<Rightarrow> calls (setPrefix g p s) = calls s \<and> storage (setPrefix g p s) = storage s
    | Some wr \<Rightarrow> calls (setPrefix g p s) = calls s @ [WriteCall g p] \<and>
                storage (setPrefix g p s) = wr (storage s) g p) \<and>
   getPrefix g (setPrefix g p s) = Inr (p, setPrefix g p s)"
  by (simp add: setPrefix_def getPrefix_def Let_def split: option.splits)

theorem setPrefix_then_getPrefix_witness:
  "getPrefix (js ''7'') (setPrefix (js ''7'') (js ''?'') fresh) =
     Inr (js ''?'', setPrefix (js ''7'') (js ''?'') fresh) \<and>
   calls (setPrefix (js ''7'') (js ''?'') fresh) = [WriteCall (js ''7'') (js ''?'')] \<and>
   reads (js ''7'') (calls (setPrefix (js ''7'') (js ''?'') fresh)) = 0"
  using setPrefix_then_getPrefix [of "js ''7''" "js ''?''" fresh]
  by (simp add: fresh_def reads_def)

text \<open>
  C3, as the claim states it, has the default cached after a read that yields nothing.
  With the sample callbacks and an empty table: the first \<open>getPrefix\<close> for guild \<open>7\<close>
  reads, writes the default and returns it, and the cache still has no entry for the
  guild; the second \<open>getPrefix\<close> calls the reader again.
\<close>

theorem default_prefix_not_cached:
  "getPrefix (js ''7'') fresh =
     Inr (js ''!'', fresh\<lparr>storage := [js ''7'' \<mapsto> js ''!''],
                         calls := [ReadCall (js ''7''), WriteCall (js ''7'') (js ''!'')]\<rparr>) \<and>
   guildPrefixCache (fresh\<lparr>storage := [js ''7'' \<mapsto> js ''!''],
                         calls := [ReadCall (js ''7''), WriteCall (js ''7'') (js ''!'')]\<rparr>)
     (js ''7'') = None \<and>
   getPrefix (js ''7'') (fresh\<lparr>storage := [js ''7'' \<mapsto> js ''!''],
                         calls := [ReadCall (js ''7''), WriteCall (js ''7'') (js ''!'')]\<rparr>) =
     Inr (js ''!'', fresh\<lparr>storage := [js ''7'' \<mapsto> js ''!''],
                         calls := [ReadCall (js ''7''), WriteCall (js ''7'') (js ''!''),
                                   ReadCall (js ''7'')],
                         guildPrefixCache := [js ''7'' \<mapsto> js ''!'']\<rparr>)"
proof -
  have ne: "js ''!'' \<noteq> []" by (simp add: js_def)
  show ?thesis
    by (simp add: getPrefix_def fresh_def db_read_def db_write_def falsy_def ne)
qed

text \<open>
  C3, amended. For a guild that is not in the cache: without a reader, \<open>getPrefix\<close>
  returns the default prefix and changes nothing. With a reader, it calls the reader
  exactly once. A prefix read that is not empty is cached and returned. When the read
  yields nothing (and a writer is set), the default is written through the writer and
  returned, and the cache is left as it was: the guild is still not in it, and the next
  \<open>getPrefix\<close> for the guild returns after calling the reader once more.
\<close>

theorem getPrefix_miss:
  assumes miss: "guildPrefixCache s g = None"
  shows
   "(getPrefixCallback s = None \<longrightarrow> getPrefix g s = Inr (defaultPrefix s, s)) \<and>
    (getPrefixCallback s = Some rd \<and> getPrefix g s = Inr (p, s1) \<longrightarrow>
       reads g (calls s1) = reads g (calls s) + 1) \<and>
    (getPrefixCallback s = Some rd \<and> rd (storage s) g = (r, w) \<and> \<not> falsy r \<longrightarrow>
       getPrefix g s =
         Inr (the r, s\<lparr>storage := w, calls := calls s @ [ReadCall g],
                        guildPrefixCache := (guildPrefixCache s)(g \<mapsto> the r)\<rparr>)) \<and>
    (getPrefixCallback s = Some rd \<and> rd (storage s) g = (r, w) \<and> falsy r \<and>
     setPrefixCallback s = Some wr \<longrightarrow>
       getPrefix g s =
         Inr (defaultPrefix s,
              s\<lparr>storage := wr w g (defaultPrefix s),
                calls := calls s @ [ReadCall g, WriteCall g (defaultPrefix s)]\<rparr>) \<and>
       (\<exists>p2 s2.
          getPrefix g (s\<lparr>storage := wr w g (defaultPrefix s),
                         calls := calls s @ [ReadCall g, WriteCall g (defaultPrefix s)]\<rparr>) =
            Inr (p2, s2) \<and>
          reads g (calls s2) = reads g (calls s) + 2))"
proof (intro conjI impI)
  show "getPrefix g s = Inr (defaultPrefix s, s)" if "getPrefixCallback s = None"
    using miss that by (simp add: getPrefix_def)
  show "reads g (calls s1) = reads g (calls s) + 1"
    if "getPrefixCallback s = Some rd \<and> getPrefix g s = Inr (p, s1)"
    using miss that
    by (auto simp: getPrefix_def Let_def reads_def split: option.splits prod.splits if_splits)
  show "getPrefix g s =
         Inr (the r, s\<lparr>storage := w, calls := calls s @ [ReadCall g],
                        guildPrefixCache := (guildPrefixCache s)(g \<mapsto> the r)\<rparr>)"
    if "getPrefixCallback s = Some rd \<and> rd (storage s) g = (r, w) \<and> \<not> falsy r"
    using miss that by (simp add: getPrefix_def)
next
  assume h: "getPrefixCallback s = Some rd \<and> rd (storage s) g = (r, w) \<and> falsy r \<and>
     setPrefixCallback s = Some wr"
  let ?s' = "s\<lparr>storage := wr w g (defaultPrefix s),
                calls := calls s @ [ReadCall g, WriteCall g (defaultPrefix s)]\<rparr>"
  show "getPrefix g s = Inr (defaultPrefix s, ?s')"
    using miss h by (simp add: getPrefix_def)
  obtain r2 w2 where rd2: "rd (wr w g (defaultPrefix s)) g = (r2, w2)"
    by (cases "rd (wr w g (defaultPrefix s)) g")
  show "\<exists>p2 s2. getPrefix g ?s' = Inr (p2, s2) \<and> reads g (calls s2) = reads g (calls s) + 2"
    using miss h rd2 by (cases "falsy r2") (simp_all add: getPrefix_def reads_def)
qed

theorem getPrefix_miss_witness:
  "getPrefix (js ''42'') (fresh\<lparr>getPrefixCallback := None\<rparr>) =
     Inr (js ''!'', fresh\<lparr>getPrefixCallback := None\<rparr>) \<and>
   getPrefix (js ''42'') (fresh\<lparr>storage := [js ''42'' \<mapsto> js ''?'']\<rparr>) =
     Inr (js ''?'', fresh\<lparr>storage := [js ''42'' \<mapsto> js ''?''],
                         calls := [ReadCall (js ''42'')],
                         guildPrefixCache := [js ''42'' \<mapsto> js ''?'']\<rparr>) \<and>
   getPrefix (js ''42'') fresh =
     Inr (js ''!'', fresh\<lparr>storage := [js ''42'' \<mapsto> js ''!''],
                         calls := [ReadCall (js ''42''), WriteCall (js ''42'') (js ''!'')]\<rparr>)"
proof -
  have ne: "js ''?'' \<noteq> []" by (simp add: js_def)
  have 1: "getPrefix (js ''42'') (fresh\<lparr>getPrefixCallback := None\<rparr>) =
     Inr (js ''!'', fresh\<lparr>getPrefixCallback := None\<rparr>)"
    using getPrefix_miss [of "fresh\<lparr>getPrefixCallback := None\<rparr>" "js ''42''"
        db_read "js ''!''" fresh None Map.empty db_write]
    by (simp add: fresh_def)
  have 2: "getPrefix (js ''42'') (fresh\<lparr>storage := [js ''42'' \<mapsto> js ''?'']\<rparr>) =
     Inr (js ''?'', fresh\<lparr>storage := [js ''42'' \<mapsto> js ''?''],
                         calls := [ReadCall (js ''42'')],
                         guildPrefixCache := [js ''42'' \<mapsto> js ''?'']\<rparr>)"
    using getPrefix_miss [of "fresh\<lparr>storage := [js ''42'' \<mapsto> js ''?'']\<rparr>" "js ''42''"
        db_read "js ''!''" fresh "Some (js ''?'')" "[js ''42'' \<mapsto> js ''?'']" db_write]
    by (simp add: fresh_def db_read_def falsy_def ne)
  have 3: "getPrefix (js ''42'') fresh =
     Inr (js ''!'', fresh\<lparr>storage := [js ''42'' \<mapsto> js ''!''],
                         calls := [ReadCall (js ''42''), WriteCall (js ''42'') (js ''!'')]\<rparr>)"
    using getPrefix_miss [of fresh "js ''42''" db_read "js ''!''" fresh None Map.empty db_write]
    by (simp add: fresh_def db_read_def db_write_def falsy_def)
  from 1 2 3 show ?thesis by simp
qed

subsection \<open>The string validator\<close>

lemma built_snoc: "built (bs @ [b]) = call_builder b (built bs)"
  by (simp add: built_def)

lemma last_case_snoc:
  "last_case (bs @ [b]) =
     (case b of ForceUpperCase \<Rightarrow> Some ForceUpperCase
              | ForceLowerCase \<Rightarrow> Some ForceLowerCase
              | _ \<Rightarrow> last_case bs)"
  by (induction bs) (auto split: string_builder.splits option.splits)

lemma built_case:
  "s_uppercase (built bs) = (last_case bs = Some ForceUpperCase) \<and>
   s_lowercase (built bs) = (last_case bs = Some ForceLowerCase)"
proof (induction bs rule: rev_induct)
  case Nil
  show ?case by (simp add: built_def new_StringArgument_def)
next
  case (snoc b bs)
  then show ?case
    by (cases b)
      (simp_all add: built_snoc last_case_snoc match_regex_def max_length_def min_length_def
        forceUpperCase_def forceLowerCase_def whitelist_def)
qed

lemma sample_fields:
  "s_minlen word_2_5 = Some 2" "s_maxlen word_2_5 = Some 5" "s_whitelist word_2_5 = None"
  "s_regex word_2_5 = None" "s_uppercase word_2_5 = False" "s_lowercase word_2_5 = True"
  "s_minlen (built [Min 1, Max 1, ForceUpperCase]) = Some 1"
  "s_maxlen (built [Min 1, Max 1, ForceUpperCase]) = Some 1"
  "s_whitelist (built [Min 1, Max 1, ForceUpperCase]) = None"
  "s_regex (built [Min 1, Max 1, ForceUpperCase]) = None"
  "s_uppercase (built [Min 1, Max 1, ForceUpperCase]) = True"
  "s_lowercase (built [Min 1, Max 1, ForceUpperCase]) = False"
  by (simp_all add: word_2_5_def built_def min_length_def max_length_def forceUpperCase_def
      forceLowerCase_def new_StringArgument_def)

lemma sample_kinds:
  "a_kind text_arg = StringArgument new_StringArgument" "a_name text_arg = js ''text''"
  "a_optional text_arg = False" "c_arguments echo = [text_arg]"
  "a_kind word_arg = StringArgument word_2_5"
  "a_kind capital_arg = StringArgument (built [Min 1, Max 1, ForceUpperCase])"
  "a_kind has_a_arg = StringArgument (match_regex a_global new_StringArgument)"
  "a_kind below_zero_arg = StringArgument (max_length (- 1) new_StringArgument)"
  by (simp_all add: text_arg_def word_arg_def capital_arg_def has_a_arg_def below_zero_arg_def
      string_arg_def new_Argument_def echo_def addArgument_def new_Command_def)

lemma sample_folds:
  "fold_case latin1 word_2_5 (js ''Hello'') = js ''hello''"
  "fold_case latin1 word_2_5 (js ''Hi'') = js ''hi''"
  "fold_case latin1 word_2_5 (js ''A'') = js ''a''"
  "fold_case latin1 word_2_5 (js ''Goodbye'') = js ''goodbye''"
  "fold_case latin1 (built [Min 1, Max 1, ForceUpperCase]) [223] = js ''SS''"
  by (simp_all add: fold_case_def sample_fields latin1_def lower_unit_def upper_units_def js_def)

lemma sample_lengths:
  "length (js ''hello'') = 5" "length (js ''hi'') = 2" "length (js ''a'') = 1"
  "length (js ''goodbye'') = 7" "length (js ''SS'') = 2" "js ''SS'' \<noteq> []"
  by (simp_all add: js_def)

lemma text_arg_takes_tab:
  "Argument_validate en text_arg [97, 9, 98] h = (Inr (VStr [97, 9, 98], []), h)"
  by (simp add: Argument_validate_def sample_kinds StringArgument_validate_def
      shift_token_eq sample_tokens StringArgument_validate'_def fold_case_def
      new_StringArgument_def)

lemma capital_rejects_sharp_s:
  "Argument_validate latin1 capital_arg [223] h =
     (Inl (ParseError (ParseErr TooLong capital_arg)), h)"
  by (simp add: Argument_validate_def sample_kinds StringArgument_validate_def
      shift_token_eq sample_tokens StringArgument_validate'_def sample_folds sample_fields
      sample_lengths Let_def)

text \<open>
  C7, as the claim states it, has the input split at the first white space, and has an
  argument with minimum \<open>a\<close> and maximum \<open>b\<close> succeed exactly when the length of the
  token is in \<open>[a, b]\<close>. The validator splits at the space character only: a tab (9) is
  white space, the text before it in \<open>a<TAB>b\<close> is \<open>a\<close>, and the unconstrained
  \<open>StringArgument\<close> takes the whole \<open>a<TAB>b\<close> as its value and leaves nothing, so
  that the command \<open>echo\<close> accepts the text with that value for its argument. And the
  lengths are checked after the case conversion: the token that is a sharp s (223) has
  length 1, but the argument with minimum 1, maximum 1 and upper case forced rejects
  it as too long, since its upper case is \<open>SS\<close>.
\<close>

theorem tab_does_not_end_token:
  "is_space 9 \<and>
   first_word [97, 9, 98] = [97] \<and>
   Argument_validate latin1 text_arg [97, 9, 98] zeros = (Inr (VStr [97, 9, 98], []), zeros) \<and>
   validate latin1 echo [97, 9, 98] zeros = (Inr [js ''text'' \<mapsto> VStr [97, 9, 98]], zeros) \<and>
   capital_arg = string_arg (js ''letter'') (built [Min 1, Max 1, ForceUpperCase]) \<and>
   length [223 :: nat] = 1 \<and>
   Argument_validate latin1 capital_arg [223] zeros =
     (Inl (ParseError (ParseErr TooLong capital_arg)), zeros)"
proof -
  have "validate latin1 echo [97, 9, 98] zeros =
          (Inr [js ''text'' \<mapsto> VStr [97, 9, 98]], zeros)"
    by (simp add: validate_def validateArgs_def sample_kinds sample_trims text_arg_takes_tab
        trim_Nil set_property_def proto_is_a_name)
  moreover have "capital_arg = string_arg (js ''letter'') (built [Min 1, Max 1, ForceUpperCase])"
    by (simp add: capital_arg_def)
  moreover have "is_space 9" "first_word [97, 9, 98] = [97]"
    by (simp_all add: is_space_def first_word_def)
  ultimately show ?thesis
    using text_arg_takes_tab [of latin1 zeros] capital_rejects_sharp_s [of zeros] by simp
qed

text \<open>
  C7, amended. \<open>StringArgument.validate\<close> splits the input at its first space character
  (U+0020; no other white space separates): the candidate is the text before it, and
  the text after it comes back untouched as the rest. The candidate is case-folded,
  then the checks run on the folded candidate in the order minimum length, maximum
  length, whitelist, regular expression, and the first one that fails decides the
  \<open>ParseError\<close>; when none fails the folded candidate and the rest are returned. The
  regular expression check is the outcome of \<open>test\<close> on the regular expression as it
  is at that moment, and it is the only step that changes anything: it leaves the
  \<open>lastIndex\<close> that \<open>test\<close> leaves. With a minimum \<open>a\<close> and a maximum \<open>b\<close> and neither
  whitelist nor regular expression, validation succeeds exactly when the length of the
  folded candidate lies in \<open>[a, b]\<close>; when no case is forced the folded candidate is the
  token itself. After any chain of builder calls the two case flags are never both set,
  and the folding is the one the last of the calls \<open>forceUpperCase\<close> and
  \<open>forceLowerCase\<close> asks for (none when there is no such call).
\<close>

theorem StringArgument_validate_checks:
  "(let tok = fold_case en f (first_token args);
        n = int (length tok);
        short = (\<exists>m. s_minlen f = Some m \<and> n < m);
        long = (\<exists>m. s_maxlen f = Some m \<and> m < n);
        barred = (\<exists>ws. s_whitelist f = Some ws \<and> tok \<notin> set ws);
        res = StringArgument_validate en this f args h
    in (short \<longrightarrow> res = (Inl (ParseError (ParseErr TooShort this)), h)) \<and>
       (\<not> short \<and> long \<longrightarrow> res = (Inl (ParseError (ParseErr TooLong this)), h)) \<and>
       (\<not> short \<and> \<not> long \<and> barred \<longrightarrow>
          res = (Inl (ParseError (ParseErr NotAllowed this)), h)) \<and>
       (\<not> short \<and> \<not> long \<and> \<not> barred \<and> s_regex f = Some re \<and> \<not> fst (test re tok h) \<longrightarrow>
          res = (Inl (ParseError (ParseErr NoMatch this)), snd (test re tok h))) \<and>
       (\<not> short \<and> \<not> long \<and> \<not> barred \<and> s_regex f = Some re \<and> fst (test re tok h) \<longrightarrow>
          res = (Inr (VStr tok, after_token args), snd (test re tok h))) \<and>
       (\<not> short \<and> \<not> long \<and> \<not> barred \<and> s_regex f = None \<longrightarrow>
          res = (Inr (VStr tok, after_token args), h)) \<and>
       (s_minlen f = Some a \<and> s_maxlen f = Some b \<and> s_whitelist f = None \<and> s_regex f = None \<longrightarrow>
          ((\<exists>v. fst res = Inr v) \<longleftrightarrow> a \<le> n \<and> n \<le> b))) \<and>
   (\<not> s_uppercase f \<and> \<not> s_lowercase f \<longrightarrow> fold_case en f s = s) \<and>
   32 \<notin> set (first_token args) \<and>
   (32 \<notin> set args \<longrightarrow> first_token args = args \<and> after_token args = []) \<and>
   (32 \<in> set args \<longrightarrow> args = first_token args @ 32 # after_token args) \<and>
   \<not> (s_uppercase (built bs) \<and> s_lowercase (built bs)) \<and>
   (last_case bs = Some ForceUpperCase \<longrightarrow> fold_case en (built bs) s = toUpperCase en s) \<and>
   (last_case bs = Some ForceLowerCase \<longrightarrow> fold_case en (built bs) s = toLowerCase en s) \<and>
   (last_case bs = None \<longrightarrow> fold_case en (built bs) s = s)"
proof -
  obtain ok h' where t: "test re (fold_case en f (first_token args)) h = (ok, h')"
    by (cases "test re (fold_case en f (first_token args)) h")
  have checks: "(let tok = fold_case en f (first_token args);
        n = int (length tok);
        short = (\<exists>m. s_minlen f = Some m \<and> n < m);
        long = (\<exists>m. s_maxlen f = Some m \<and> m < n);
        barred = (\<exists>ws. s_whitelist f = Some ws \<and> tok \<notin> set ws);
        res = StringArgument_validate en this f args h
    in (short \<longrightarrow> res = (Inl (ParseError (ParseErr TooShort this)), h)) \<and>
       (\<not> short \<and> long \<longrightarrow> res = (Inl (ParseError (ParseErr TooLong this)), h)) \<and>
       (\<not> short \<and> \<not> long \<and> barred \<longrightarrow>
          res = (Inl (ParseError (ParseErr NotAllowed this)), h)) \<and>
       (\<not> short \<and> \<not> long \<and> \<not> barred \<and> s_regex f = Some re \<and> \<not> fst (test re tok h) \<longrightarrow>
          res = (Inl (ParseError (ParseErr NoMatch this)), snd (test re tok h))) \<and>
       (\<not> short \<and> \<not> long \<and> \<not> barred \<and> s_regex f = Some re \<and> fst (test re tok h) \<longrightarrow>
          res = (Inr (VStr tok, after_token args), snd (test re tok h))) \<and>
       (\<not> short \<and> \<not> long \<and> \<not> barred \<and> s_regex f = None \<longrightarrow>
          res = (Inr (VStr tok, after_token args), h)) \<and>
       (s_minlen f = Some a \<and> s_maxlen f = Some b \<and> s_whitelist f = None \<and> s_regex f = None \<longrightarrow>
          ((\<exists>v. fst res = Inr v) \<longleftrightarrow> a \<le> n \<and> n \<le> b)))"
    unfolding Let_def StringArgument_validate_def shift_token_eq StringArgument_validate'_def
    using t
    by (cases "s_minlen f"; cases "s_maxlen f"; cases "s_whitelist f"; cases "s_regex f")
       auto
  have plain: "\<not> s_uppercase f \<and> \<not> s_lowercase f \<longrightarrow> fold_case en f s = s"
    by (simp add: fold_case_def)
  have flags: "\<not> (s_uppercase (built bs) \<and> s_lowercase (built bs))"
    using built_case [of bs] by auto
  have folds:
    "last_case bs = Some ForceUpperCase \<longrightarrow> fold_case en (built bs) s = toUpperCase en s"
    "last_case bs = Some ForceLowerCase \<longrightarrow> fold_case en (built bs) s = toLowerCase en s"
    "last_case bs = None \<longrightarrow> fold_case en (built bs) s = s"
    using built_case [of bs] by (auto simp: fold_case_def)
  from checks plain flags folds first_token_split [of args] show ?thesis
    by blast
qed

lemma sample_tests:
  "test a_global (js ''a'') zeros = (True, zeros(0 := 1))"
  "test a_global (js ''a'') (zeros(0 := 1)) = (False, zeros)"
  "test a_global (js ''a'') (zeros(0 := Suc 0)) = (False, zeros)"
  by (simp_all add: test_def a_global_def find_a_def zeros_def js_def fun_eq_iff)

theorem StringArgument_validate_checks_witness:
  "Argument_validate latin1 word_arg (js ''Hello world'') zeros =
     (Inr (VStr (js ''hello''), js ''world''), zeros) \<and>
   Argument_validate latin1 word_arg (js ''Hi  there you'') zeros =
     (Inr (VStr (js ''hi''), js '' there you''), zeros) \<and>
   Argument_validate latin1 word_arg (js ''A b'') zeros =
     (Inl (ParseError (ParseErr TooShort word_arg)), zeros) \<and>
   Argument_validate latin1 word_arg (js ''Goodbye'') zeros =
     (Inl (ParseError (ParseErr TooLong word_arg)), zeros) \<and>
   Argument_validate latin1 has_a_arg (js ''a'') zeros =
     (Inr (VStr (js ''a''), []), zeros(0 := 1)) \<and>
   Argument_validate latin1 has_a_arg (js ''a'') (zeros(0 := 1)) =
     (Inl (ParseError (ParseErr NoMatch has_a_arg)), zeros)"
proof -
  have 1: "StringArgument_validate latin1 word_arg word_2_5 (js ''Hello world'') zeros =
             (Inr (VStr (js ''hello''), js ''world''), zeros)"
    using StringArgument_validate_checks
      [where en = latin1 and f = word_2_5 and args = "js ''Hello world''" and this = word_arg
         and h = zeros and re = a_global and a = 2 and b = 5 and s = "[]" and bs = "[]"]
    by (simp add: Let_def sample_tokens sample_folds sample_fields sample_lengths)
  have 2: "StringArgument_validate latin1 word_arg word_2_5 (js ''Hi  there you'') zeros =
             (Inr (VStr (js ''hi''), js '' there you''), zeros)"
    using StringArgument_validate_checks
      [where en = latin1 and f = word_2_5 and args = "js ''Hi  there you''" and this = word_arg
         and h = zeros and re = a_global and a = 2 and b = 5 and s = "[]" and bs = "[]"]
    by (simp add: Let_def sample_tokens sample_folds sample_fields sample_lengths)
  have 3: "StringArgument_validate latin1 word_arg word_2_5 (js ''A b'') zeros =
             (Inl (ParseError (ParseErr TooShort word_arg)), zeros)"
    using StringArgument_validate_checks
      [where en = latin1 and f = word_2_5 and args = "js ''A b''" and this = word_arg
         and h = zeros and re = a_global and a = 2 and b = 5 and s = "[]" and bs = "[]"]
    by (simp add: Let_def sample_tokens sample_folds sample_fields sample_lengths)
  have 4: "StringArgument_validate latin1 word_arg word_2_5 (js ''Goodbye'') zeros =
             (Inl (ParseError (ParseErr TooLong word_arg)), zeros)"
    using StringArgument_validate_checks
      [where en = latin1 and f = word_2_5 and args = "js ''Goodbye''" and this = word_arg
         and h = zeros and re = a_global and a = 2 and b = 5 and s = "[]" and bs = "[]"]
    by (simp add: Let_def sample_tokens sample_folds sample_fields sample_lengths)
  have f: "s_minlen (match_regex a_global new_StringArgument) = None"
    "s_maxlen (match_regex a_global new_StringArgument) = None"
    "s_whitelist (match_regex a_global new_StringArgument) = None"
    "s_regex (match_regex a_global new_StringArgument) = Some a_global"
    "fold_case latin1 (match_regex a_global new_StringArgument) (js ''a'') = js ''a''"
    by (simp_all add: match_regex_def new_StringArgument_def fold_case_def)
  have 5: "StringArgument_validate latin1 has_a_arg (match_regex a_global new_StringArgument)
             (js ''a'') zeros = (Inr (VStr (js ''a''), []), zeros(0 := 1))"
    using StringArgument_validate_checks
      [where en = latin1 and f = "match_regex a_global new_StringArgument"
         and args = "js ''a''" and this = has_a_arg
         and h = zeros and re = a_global and a = 0 and b = 0 and s = "[]" and bs = "[]"]
    by (simp add: Let_def sample_tokens f sample_tests)
  have 6: "StringArgument_validate latin1 has_a_arg (match_regex a_global new_StringArgument)
             (js ''a'') (zeros(0 := 1)) =
             (Inl (ParseError (ParseErr NoMatch has_a_arg)), zeros)"
    using StringArgument_validate_checks
      [where en = latin1 and f = "match_regex a_global new_StringArgument"
         and args = "js ''a''" and this = has_a_arg
         and h = "zeros(0 := 1)" and re = a_global and a = 0 and b = 0 and s = "[]"
         and bs = "[]"]
    by (simp add: Let_def sample_tokens f sample_tests)
  from 1 2 3 4 5 6 show ?thesis by (simp add: Argument_validate_def sample_kinds)
qed

text \<open>
  C9, as the claim states it, covers every \<open>StringArgument\<close> without minimum length,
  whitelist and regular expression. One whose maximum length is -1 has none of the
  three and rejects the empty input, which is longer than -1.
\<close>

theorem negative_maximum_rejects_empty:
  "a_kind below_zero_arg = StringArgument (max_length (- 1) new_StringArgument) \<and>
   s_minlen (max_length (- 1) new_StringArgument) = None \<and>
   s_whitelist (max_length (- 1) new_StringArgument) = None \<and>
   s_regex (max_length (- 1) new_StringArgument) = None \<and>
   Argument_validate latin1 below_zero_arg [] zeros =
     (Inl (ParseError (ParseErr TooLong below_zero_arg)), zeros)"
  by (simp add: sample_kinds Argument_validate_def
      StringArgument_validate_def shift_token_eq first_token_def after_token_def
      StringArgument_validate'_def fold_case_def max_length_def new_StringArgument_def)

text \<open>
  C9, amended. For a \<open>StringArgument\<close> (or \<open>RestArgument\<close>) without minimum length,
  whitelist and regular expression, whose maximum length is not set or not negative,
  on an engine whose case conversions leave the empty string empty (as JavaScript's
  do): validating the empty input succeeds with the empty string as value and the empty
  rest. So in the chain, such an argument whose name is not \<open>__proto__\<close>, met
  with nothing left of the input, gets the value \<open>""\<close> and the chain goes on; a command
  whose only argument it is, required or not, accepts an argument text that is empty or
  all white space, and returns \<open>""\<close> for the argument instead of raising.
\<close>

theorem empty_input_is_a_string:
  "s_minlen f = None \<and> s_whitelist f = None \<and> s_regex f = None \<and>
   (s_maxlen f = None \<or> (\<exists>m. s_maxlen f = Some m \<and> 0 \<le> m)) \<and>
   toUpperCase en [] = [] \<and> toLowerCase en [] = [] \<longrightarrow>
     StringArgument_validate en this f [] h = (Inr (VStr [], []), h) \<and>
     RestArgument_validate en this f [] h = (Inr (VStr [], []), h) \<and>
     ((a_kind arg = StringArgument f \<or> a_kind arg = RestArgument f) \<and> v_remaining st = [] \<and>
      a_name arg \<noteq> js ''__proto__'' \<longrightarrow>
        validateArgs_loop en (arg # others) st h =
          validateArgs_loop en others
            (st\<lparr>v_result := (v_result st)(a_name arg \<mapsto> VStr []), v_remaining := []\<rparr>) h) \<and>
     ((a_kind arg = StringArgument f \<or> a_kind arg = RestArgument f) \<and> c_arguments c = [arg] \<and>
      trim args = [] \<and> a_name arg \<noteq> js ''__proto__'' \<longrightarrow>
        validate en c args h = (Inr [a_name arg \<mapsto> VStr []], h))"
proof (intro impI)
  assume p: "s_minlen f = None \<and> s_whitelist f = None \<and> s_regex f = None \<and>
   (s_maxlen f = None \<or> (\<exists>m. s_maxlen f = Some m \<and> 0 \<le> m)) \<and>
   toUpperCase en [] = [] \<and> toLowerCase en [] = []"
  have fc: "fold_case en f [] = []"
    using p by (simp add: fold_case_def)
  have s: "StringArgument_validate en this f [] h = (Inr (VStr [], []), h)" for this
    using p fc by (auto simp: StringArgument_validate_def shift_token_eq first_token_def
        after_token_def StringArgument_validate'_def)
  have r: "RestArgument_validate en this f [] h = (Inr (VStr [], []), h)" for this
    using p fc by (auto simp: RestArgument_validate_def StringArgument_validate'_def)
  have av: "Argument_validate en arg [] h = (Inr (VStr [], []), h)"
    if "a_kind arg = StringArgument f \<or> a_kind arg = RestArgument f"
    using that s r by (auto simp: Argument_validate_def)
  have step: "validateArgs_loop en (arg # others) st h =
          validateArgs_loop en others
            (st\<lparr>v_result := (v_result st)(a_name arg \<mapsto> VStr []), v_remaining := []\<rparr>) h"
    if "(a_kind arg = StringArgument f \<or> a_kind arg = RestArgument f) \<and> v_remaining st = [] \<and>
      a_name arg \<noteq> js ''__proto__''"
    using that av by (simp add: trim_Nil set_property_def)
  have whole: "validate en c args h = (Inr [a_name arg \<mapsto> VStr []], h)"
    if "(a_kind arg = StringArgument f \<or> a_kind arg = RestArgument f) \<and> c_arguments c = [arg] \<and>
      trim args = [] \<and> a_name arg \<noteq> js ''__proto__''"
    using that av by (simp add: validate_def validateArgs_def trim_Nil set_property_def)
  from s r step whole
  show "StringArgument_validate en this f [] h = (Inr (VStr [], []), h) \<and>
     RestArgument_validate en this f [] h = (Inr (VStr [], []), h) \<and>
     ((a_kind arg = StringArgument f \<or> a_kind arg = RestArgument f) \<and> v_remaining st = [] \<and>
      a_name arg \<noteq> js ''__proto__'' \<longrightarrow>
        validateArgs_loop en (arg # others) st h =
          validateArgs_loop en others
            (st\<lparr>v_result := (v_result st)(a_name arg \<mapsto> VStr []), v_remaining := []\<rparr>) h) \<and>
     ((a_kind arg = StringArgument f \<or> a_kind arg = RestArgument f) \<and> c_arguments c = [arg] \<and>
      trim args = [] \<and> a_name arg \<noteq> js ''__proto__'' \<longrightarrow>
        validate en c args h = (Inr [a_name arg \<mapsto> VStr []], h))"
    by blast
qed

theorem empty_input_is_a_string_witness:
  "a_optional text_arg = False \<and>
   Argument_validate latin1 text_arg [] zeros = (Inr (VStr [], []), zeros) \<and>
   validate latin1 echo [] zeros = (Inr [js ''text'' \<mapsto> VStr []], zeros) \<and>
   validate latin1 echo (js ''  '') zeros = (Inr [js ''text'' \<mapsto> VStr []], zeros)"
proof -
  have n: "s_minlen new_StringArgument = None" "s_whitelist new_StringArgument = None"
    "s_regex new_StringArgument = None" "s_maxlen new_StringArgument = None"
    "toUpperCase latin1 [] = []" "toLowerCase latin1 [] = []"
    by (simp_all add: new_StringArgument_def latin1_def)
  from empty_input_is_a_string [of new_StringArgument latin1 text_arg zeros text_arg
      "\<lparr>v_result = Map.empty, v_remaining = [], v_errors = []\<rparr>" "[]" echo "[]"]
    empty_input_is_a_string [of new_StringArgument latin1 text_arg zeros text_arg
      "\<lparr>v_result = Map.empty, v_remaining = [], v_errors = []\<rparr>" "[]" echo "js ''  ''"]
  show ?thesis
    using n sample_kinds sample_trims proto_is_a_name
    by (simp add: Argument_validate_def trim_Nil)
qed

subsection \<open>The number validator\<close>

lemma to_double_not_NaN: "\<not> isNaN (to_double q)"
  by (simp add: to_double_def Let_def)

lemma digits_value_zeros: "digits_value acc (replicate n 48) = acc * 10 ^ n"
  by (induction n arbitrary: acc) simp_all

lemma huge_token: "first_token huge = huge" "after_token huge = []"
  using first_token_split [of huge] by (auto simp: huge_def)

lemma huge_digits: "takeWhile is_digit huge = huge" "dropWhile is_digit huge = []"
  by (auto simp: huge_def is_digit_def)

lemma huge_format: "number_format huge"
proof -
  have "strip_minus huge = huge" by (simp add: strip_minus_def huge_def)
  then show ?thesis by (simp add: number_format_def huge_digits) (simp add: huge_def)
qed

lemma huge_value: "decimal_value huge = 10 ^ 309"
proof -
  have "strip_minus huge = huge" by (simp add: strip_minus_def huge_def)
  moreover have "digits_value 0 huge = 10 ^ 309"
    by (simp add: huge_def digits_value_zeros)
  ultimately show ?thesis by (simp add: decimal_value_def huge_digits)
qed

lemma huge_parse: "parseFloat huge = PInf"
  by (simp add: parseFloat_def huge_format huge_value to_double_def)

lemma sample_numerals:
  "number_format (js ''2.5'')" "decimal_value (js ''2.5'') = 5 / 2"
  "number_format (js ''-7'')" "decimal_value (js ''-7'') = - 7" "\<not> number_format (js ''1e3'')"
  "number_format (js ''3.0'')" "decimal_value (js ''3.0'') = 3"
  "\<not> number_format [51, 9, 52]"
  by (simp_all add: number_format_def decimal_value_def strip_minus_def is_digit_def js_def)

lemma sample_number_tokens:
  "first_token (js ''2.5 apples'') = js ''2.5''" "after_token (js ''2.5 apples'') = js ''apples''"
  "first_token (js ''-7 apples'') = js ''-7''" "after_token (js ''-7 apples'') = js ''apples''"
  "first_token (js ''1e3'') = js ''1e3''"
  "first_token (js ''3.0'') = js ''3.0''" "after_token (js ''3.0'') = []"
  "first_token [51, 9, 52] = [51, 9, 52]"
  by (simp_all add: first_token_def after_token_def js_def)

lemma floor_5_2: "\<lfloor>5 / 2 :: rat\<rfloor> = 2"
  by (simp add: floor_eq_iff)

lemma doubles:
  "to_double (5 / 2) = Fin (5 / 2)" "to_double (- 7) = Fin (- 7)" "to_double 3 = Fin 3"
  "has_fraction (Fin (5 / 2))"
proof -
  have fl: "floorlog 2 2 = 2" "floorlog 2 7 = 3" "floorlog 2 3 = 2"
    by (simp_all add: compute_floorlog)
  show "to_double (5 / 2) = Fin (5 / 2)"
    by (simp add: to_double_def ilog2_def fl floor_5_2 round_ties_even_def pow2_def Let_def)
  show "to_double (- 7) = Fin (- 7)"
    by (simp add: to_double_def ilog2_def fl round_ties_even_def pow2_def Let_def)
  show "to_double 3 = Fin 3"
    by (simp add: to_double_def ilog2_def fl round_ties_even_def pow2_def Let_def)
  show "has_fraction (Fin (5 / 2))"
    by (simp add: floor_5_2)
qed

text \<open>
  C6, as the claim states it, has a \<open>ParseError\<close> raised unless the token parses to a
  finite number, and takes the first token delimited by white space. The numeral of
  \<open>10 ^ 309\<close> matches the format and parses to \<open>Infinity\<close>, and a \<open>NumberArgument\<close>
  without constraints accepts it with that value: the validator tests \<open>isNaN\<close>, which
  no numeral of the format fails. And in \<open>3<TAB>4\<close> the text before the white space is
  \<open>3\<close>, but the validator takes \<open>3<TAB>4\<close> as the token and rejects it.
\<close>

theorem overflowing_number_accepted:
  "huge = 49 # replicate 309 48 \<and>
   number_format huge \<and> parseFloat huge = PInf \<and>
   Argument_validate latin1 count_arg huge zeros = (Inr (VNum PInf, []), zeros) \<and>
   first_word [51, 9, 52] = [51] \<and>
   Argument_validate latin1 count_arg [51, 9, 52] zeros =
     (Inl (ParseError (ParseErr NotANumber count_arg)), zeros)"
proof -
  have k: "a_kind count_arg = NumberArgument new_NumberArgument"
    by (simp add: count_arg_def number_arg_def new_Argument_def)
  have 1: "NumberArgument_validate count_arg new_NumberArgument huge = Inr (VNum PInf, [])"
    by (simp add: NumberArgument_validate_def shift_token_eq huge_token huge_format huge_parse
        new_NumberArgument_def)
  have 2: "first_word [51, 9, 52] = [51]"
    by (simp add: first_word_def is_space_def)
  have 4: "NumberArgument_validate count_arg new_NumberArgument [51, 9, 52] =
     Inl (ParseError (ParseErr NotANumber count_arg))"
    by (simp add: NumberArgument_validate_def shift_token_eq sample_number_tokens
        sample_numerals)
  from 1 2 4 huge_format huge_parse show ?thesis
    by (simp add: huge_def Argument_validate_def k)
qed

text \<open>
  C6, amended. \<open>NumberArgument.validate\<close> takes the text before the first space
  character (U+0020) as the token and returns the text after that space as the rest. It
  raises a \<open>ParseError\<close> when the token does not match \<open>-?\d+(\.\d+)?\<close>; a token that
  matches never parses to NaN (it may parse to an infinity, which passes this check).
  Then the checks run in the order minimum, maximum, integer, sign, and the first one
  that fails decides the \<open>ParseError\<close>; when none fails the number and the rest are
  returned. With \<open>integer()\<close>, every token whose Number value has a remainder other than
  zero modulo 1 fails with a \<open>ParseError\<close>; with nothing but \<open>integer()\<close> configured,
  \<open>"3.0"\<close> succeeds with the value 3.
\<close>

theorem NumberArgument_validate_checks:
  "(let tok = first_token args;
        num = to_double (decimal_value tok);
        small = (\<exists>m. n_min f = Some m \<and> num_less num m);
        big = (\<exists>m. n_max f = Some m \<and> num_less m num);
        fractional = (n_int f \<and> has_fraction num);
        not_positive = (n_forcePositive f \<and> num_le num (Fin 0));
        not_negative = (n_forceNegative f \<and> num_le (Fin 0) num);
        res = NumberArgument_validate this f args
    in (\<not> number_format tok \<longrightarrow> res = Inl (ParseError (ParseErr NotANumber this))) \<and>
       (number_format tok \<longrightarrow>
          parseFloat tok = num \<and> \<not> isNaN num \<and>
          (small \<longrightarrow> res = Inl (ParseError (ParseErr TooSmall this))) \<and>
          (\<not> small \<and> big \<longrightarrow> res = Inl (ParseError (ParseErr TooBig this))) \<and>
          (\<not> small \<and> \<not> big \<and> fractional \<longrightarrow>
             res = Inl (ParseError (ParseErr NotInteger this))) \<and>
          (\<not> small \<and> \<not> big \<and> \<not> fractional \<and> not_positive \<longrightarrow>
             res = Inl (ParseError (ParseErr NotPositive this))) \<and>
          (\<not> small \<and> \<not> big \<and> \<not> fractional \<and> \<not> not_positive \<and> not_negative \<longrightarrow>
             res = Inl (ParseError (ParseErr NotNegative this))) \<and>
          (\<not> small \<and> \<not> big \<and> \<not> fractional \<and> \<not> not_positive \<and> \<not> not_negative \<longrightarrow>
             res = Inr (VNum num, after_token args)) \<and>
          (fractional \<longrightarrow> (\<exists>ch. res = Inl (ParseError (ParseErr ch this)))))) \<and>
   32 \<notin> set (first_token args) \<and>
   (32 \<notin> set args \<longrightarrow> first_token args = args \<and> after_token args = []) \<and>
   (32 \<in> set args \<longrightarrow> args = first_token args @ 32 # after_token args) \<and>
   NumberArgument_validate this (integer new_NumberArgument) (js ''3.0'') =
     Inr (VNum (Fin 3), []) \<and>
   Argument_validate en (number_arg name f) args h =
     (NumberArgument_validate (number_arg name f) f args, h)"
proof -
  have checks: "(let tok = first_token args;
        num = to_double (decimal_value tok);
        small = (\<exists>m. n_min f = Some m \<and> num_less num m);
        big = (\<exists>m. n_max f = Some m \<and> num_less m num);
        fractional = (n_int f \<and> has_fraction num);
        not_positive = (n_forcePositive f \<and> num_le num (Fin 0));
        not_negative = (n_forceNegative f \<and> num_le (Fin 0) num);
        res = NumberArgument_validate this f args
    in (\<not> number_format tok \<longrightarrow> res = Inl (ParseError (ParseErr NotANumber this))) \<and>
       (number_format tok \<longrightarrow>
          parseFloat tok = num \<and> \<not> isNaN num \<and>
          (small \<longrightarrow> res = Inl (ParseError (ParseErr TooSmall this))) \<and>
          (\<not> small \<and> big \<longrightarrow> res = Inl (ParseError (ParseErr TooBig this))) \<and>
          (\<not> small \<and> \<not> big \<and> fractional \<longrightarrow>
             res = Inl (ParseError (ParseErr NotInteger this))) \<and>
          (\<not> small \<and> \<not> big \<and> \<not> fractional \<and> not_positive \<longrightarrow>
             res = Inl (ParseError (ParseErr NotPositive this))) \<and>
          (\<not> small \<and> \<not> big \<and> \<not> fractional \<and> \<not> not_positive \<and> not_negative \<longrightarrow>
             res = Inl (ParseError (ParseErr NotNegative this))) \<and>
          (\<not> small \<and> \<not> big \<and> \<not> fractional \<and> \<not> not_positive \<and> \<not> not_negative \<longrightarrow>
             res = Inr (VNum num, after_token args)) \<and>
          (fractional \<longrightarrow> (\<exists>ch. res = Inl (ParseError (ParseErr ch this))))))"
    unfolding Let_def NumberArgument_validate_def shift_token_eq parseFloat_def
    by (cases "n_min f"; cases "n_max f") (auto simp: to_double_not_NaN)
  have three: "NumberArgument_validate this (integer new_NumberArgument) (js ''3.0'') =
                 Inr (VNum (Fin 3), [])"
    by (simp add: NumberArgument_validate_def shift_token_eq sample_number_tokens
        parseFloat_def sample_numerals doubles integer_def new_NumberArgument_def num_le_def)
  have called: "Argument_validate en (number_arg name f) args h =
     (NumberArgument_validate (number_arg name f) f args, h)"
    by (simp add: Argument_validate_def number_arg_def new_Argument_def)
  from checks three called first_token_split [of args] show ?thesis
    by blast
qed

theorem NumberArgument_validate_checks_witness:
  "Argument_validate latin1 (number_arg (js ''n'') (integer new_NumberArgument))
       (js ''2.5 apples'') zeros =
     (Inl (ParseError
            (ParseErr NotInteger (number_arg (js ''n'') (integer new_NumberArgument)))), zeros) \<and>
   Argument_validate latin1 (number_arg (js ''n'') (positive (integer new_NumberArgument)))
       (js ''-7 apples'') zeros =
     (Inl (ParseError
            (ParseErr NotPositive
              (number_arg (js ''n'') (positive (integer new_NumberArgument))))), zeros) \<and>
   Argument_validate latin1 (number_arg (js ''n'') (maximum (Fin 2) (integer new_NumberArgument)))
       (js ''2.5 apples'') zeros =
     (Inl (ParseError
            (ParseErr TooBig
              (number_arg (js ''n'') (maximum (Fin 2) (integer new_NumberArgument))))), zeros) \<and>
   Argument_validate latin1 (number_arg (js ''n'') (integer new_NumberArgument))
       (js ''-7 apples'') zeros =
     (Inr (VNum (Fin (- 7)), js ''apples''), zeros) \<and>
   Argument_validate latin1 (number_arg (js ''n'') (integer new_NumberArgument))
       (js ''1e3'') zeros =
     (Inl (ParseError
            (ParseErr NotANumber (number_arg (js ''n'') (integer new_NumberArgument)))), zeros) \<and>
   Argument_validate latin1 (number_arg (js ''n'') (integer new_NumberArgument))
       (js ''3.0'') zeros =
     (Inr (VNum (Fin 3), []), zeros)"
proof -
  have 1: "Argument_validate latin1 (number_arg (js ''n'') (integer new_NumberArgument))
       (js ''2.5 apples'') zeros =
     (Inl (ParseError
            (ParseErr NotInteger (number_arg (js ''n'') (integer new_NumberArgument)))), zeros)"
    using NumberArgument_validate_checks
      [where args = "js ''2.5 apples''" and f = "integer new_NumberArgument"
         and this = "number_arg (js ''n'') (integer new_NumberArgument)" and en = latin1
         and name = "js ''n''" and h = zeros]
    by (simp add: Let_def sample_number_tokens sample_numerals doubles floor_5_2 integer_def
        new_NumberArgument_def)
  have 2: "Argument_validate latin1 (number_arg (js ''n'') (positive (integer new_NumberArgument)))
       (js ''-7 apples'') zeros =
     (Inl (ParseError
            (ParseErr NotPositive
              (number_arg (js ''n'') (positive (integer new_NumberArgument))))), zeros)"
    using NumberArgument_validate_checks
      [where args = "js ''-7 apples''" and f = "positive (integer new_NumberArgument)"
         and this = "number_arg (js ''n'') (positive (integer new_NumberArgument))"
         and en = latin1 and name = "js ''n''" and h = zeros]
    by (simp add: Let_def sample_number_tokens sample_numerals doubles integer_def positive_def
        new_NumberArgument_def num_le_def)
  have 3: "Argument_validate latin1
       (number_arg (js ''n'') (maximum (Fin 2) (integer new_NumberArgument)))
       (js ''2.5 apples'') zeros =
     (Inl (ParseError
            (ParseErr TooBig
              (number_arg (js ''n'') (maximum (Fin 2) (integer new_NumberArgument))))), zeros)"
    using NumberArgument_validate_checks
      [where args = "js ''2.5 apples''" and f = "maximum (Fin 2) (integer new_NumberArgument)"
         and this = "number_arg (js ''n'') (maximum (Fin 2) (integer new_NumberArgument))"
         and en = latin1 and name = "js ''n''" and h = zeros]
    by (simp add: Let_def sample_number_tokens sample_numerals doubles integer_def maximum_def
        new_NumberArgument_def)
  have 4: "Argument_validate latin1 (number_arg (js ''n'') (integer new_NumberArgument))
       (js ''-7 apples'') zeros =
     (Inr (VNum (Fin (- 7)), js ''apples''), zeros)"
    using NumberArgument_validate_checks
      [where args = "js ''-7 apples''" and f = "integer new_NumberArgument"
         and this = "number_arg (js ''n'') (integer new_NumberArgument)" and en = latin1
         and name = "js ''n''" and h = zeros]
    by (simp add: Let_def sample_number_tokens sample_numerals doubles integer_def
        new_NumberArgument_def)
  have 5: "Argument_validate latin1 (number_arg (js ''n'') (integer new_NumberArgument))
       (js ''1e3'') zeros =
     (Inl (ParseError
            (ParseErr NotANumber (number_arg (js ''n'') (integer new_NumberArgument)))), zeros)"
    using NumberArgument_validate_checks
      [where args = "js ''1e3''" and f = "integer new_NumberArgument"
         and this = "number_arg (js ''n'') (integer new_NumberArgument)" and en = latin1
         and name = "js ''n''" and h = zeros]
    by (simp add: Let_def sample_number_tokens sample_numerals)
  have 6: "Argument_validate latin1 (number_arg (js ''n'') (integer new_NumberArgument))
       (js ''3.0'') zeros =
     (Inr (VNum (Fin 3), []), zeros)"
    using NumberArgument_validate_checks
      [where args = "js ''3.0''" and f = "integer new_NumberArgument"
         and this = "number_arg (js ''n'') (integer new_NumberArgument)" and en = latin1
         and name = "js ''n''" and h = zeros]
    by simp
  from 1 2 3 4 5 6 show ?thesis by simp
qed

end
